theory Spec2Isabelle
  imports Main
begin

section \<open>The collaborative canvas server (server.js)\<close>

text \<open>
  The server keeps two process-wide maps (\<open>rooms\<close>, \<open>users\<close>), one \<open>Room\<close> object per
  room, and two closure variables (\<open>currentRoom\<close>, \<open>currentUser\<close>) per socket. Every
  handler runs to completion before the next one starts, so the embedding is a state
  record that each handler takes and returns, together with the list of messages the
  handler emits, or the exception it throws.
\<close>

subsection \<open>Payloads\<close>

text \<open>
  The server stores whatever value arrives with \<open>draw:event\<close>. The client sends an
  object; its stroke (\<open>event\<close>) is never inspected by the server and is kept as an
  opaque text, and each of \<open>id\<close>, \<open>userId\<close> and \<open>timestamp\<close> may be absent (\<open>None\<close>). A
  payload can also be a primitive: a number, a string or a boolean. A payload that is
  \<open>undefined\<close> or \<open>null\<close> is the \<open>None\<close> of the event (see \<open>on_draw\<close>) and is never
  stored.
\<close>

record op_fields =
  op_id :: "string option"
  op_userId :: "string option"
  op_event :: string
  timestamp :: "int option"

datatype operation = JObj op_fields | JNum int | JStr string | JBool bool

text \<open>
  The participant object built by \<open>room:join\<close>:
  \<open>{id: userId || socket.id, socketId: socket.id, ...userData}\<close>. The spread comes
  last, so every field that \<open>userData\<close> carries replaces the one written before it:
  the client sends \<open>color\<close> and \<open>online\<close>, and an \<open>id\<close> or a \<open>socketId\<close> inside
  \<open>userData\<close> overrides the participant's. Each field of \<open>userData\<close> may be absent;
  when \<open>userData\<close> itself is absent the spread adds nothing.
\<close>

record userData =
  ud_id :: "string option"
  ud_socketId :: "string option"
  ud_color :: "string option"
  ud_online :: "bool option"

record user =
  u_id :: string
  socketId :: string
  color :: "string option"
  online :: "bool option"

text \<open>
  The payload of \<open>room:join\<close> when it is a value whose properties can be read; each
  of its three fields may be absent. A primitive payload reads as the payload with
  all three absent. A payload that is \<open>undefined\<close> or \<open>null\<close> is the \<open>None\<close> of the event
  (see \<open>on_join\<close>).
\<close>

record join_data =
  jd_roomId :: "string option"
  jd_userId :: "string option"
  jd_userData :: "userData option"

subsection \<open>JavaScript array and value helpers\<close>

text \<open>
  \<open>xs.slice(0, e)\<close>: a negative end counts from the end of the array, an end beyond
  the length is clamped.
\<close>

definition slice0 :: "'a list \<Rightarrow> int \<Rightarrow> 'a list" where
  "slice0 xs e =
     (let n = int (length xs);
          k = (if e < 0 then max (n + e) 0 else min e n)
      in take (nat k) xs)"

text \<open>
  \<open>xs[i]\<close>: reading outside the array gives \<open>undefined\<close>. Both \<open>null\<close> and
  \<open>undefined\<close> are \<open>None\<close> here: the callers only test the result for truthiness.
\<close>

definition js_index :: "'a list \<Rightarrow> int \<Rightarrow> 'a option" where
  "js_index xs i = (if 0 \<le> i \<and> i < int (length xs) then Some (xs ! nat i) else None)"

text \<open>\<open>userId || socket.id\<close>: an absent or empty string is falsy.\<close>

definition or_else :: "string option \<Rightarrow> string \<Rightarrow> string" where
  "or_else v d = (case v of None \<Rightarrow> d | Some x \<Rightarrow> (if x = [] then d else x))"

text \<open>
  \<open>!operation.timestamp\<close>: on an object an absent timestamp and the number 0 are
  falsy; reading the property of a primitive gives \<open>undefined\<close>.
\<close>

fun timestamp_missing :: "operation \<Rightarrow> bool" where
  "timestamp_missing (JObj props) =
     (case timestamp props of None \<Rightarrow> True | Some t \<Rightarrow> t = 0)"
| "timestamp_missing (JNum n) = True"
| "timestamp_missing (JStr x) = True"
| "timestamp_missing (JBool b) = True"

text \<open>
  \<open>operation.timestamp = now\<close>: server.js is not in strict mode, so the assignment to
  a property of a primitive is dropped without an error.
\<close>

fun set_timestamp :: "operation \<Rightarrow> int \<Rightarrow> operation" where
  "set_timestamp (JObj props) now = JObj (props\<lparr>timestamp := Some now\<rparr>)"
| "set_timestamp (JNum n) now = JNum n"
| "set_timestamp (JStr x) now = JStr x"
| "set_timestamp (JBool b) now = JBool b"

text \<open>
  \<open>if (operation)\<close>: an object is truthy; 0, the empty string and \<open>false\<close> are falsy.
\<close>

fun truthy :: "operation \<Rightarrow> bool" where
  "truthy (JObj props) = True"
| "truthy (JNum n) = (n \<noteq> 0)"
| "truthy (JStr x) = (x \<noteq> [])"
| "truthy (JBool b) = b"

text \<open>\<open>operation.id\<close>: a primitive has no such property.\<close>

fun id_of :: "operation \<Rightarrow> string option" where
  "id_of (JObj props) = op_id props"
| "id_of (JNum n) = None"
| "id_of (JStr x) = None"
| "id_of (JBool b) = None"

text \<open>
  A JavaScript \<open>Map\<close> from strings keeps its entries in insertion order: \<open>set\<close> on a key
  that is present replaces the value in place, \<open>delete\<close> removes the entry.
\<close>

fun map_set :: "string \<Rightarrow> 'v \<Rightarrow> (string \<times> 'v) list \<Rightarrow> (string \<times> 'v) list" where
  "map_set k v [] = [(k, v)]"
| "map_set k v ((k', v') # kvs) =
     (if k = k' then (k, v) # kvs else (k', v') # map_set k v kvs)"

fun map_delete :: "string \<Rightarrow> (string \<times> 'v) list \<Rightarrow> (string \<times> 'v) list" where
  "map_delete k [] = []"
| "map_delete k ((k', v') # kvs) =
     (if k = k' then kvs else (k', v') # map_delete k kvs)"

subsection \<open>class Room\<close>

record room =
  roomId :: string
  operations :: "operation list"
  users :: "(string \<times> user) list"
  currentOperationIndex :: int

definition new_Room :: "string \<Rightarrow> room" where
  "new_Room rid =
     \<lparr>roomId = rid, operations = [], users = [], currentOperationIndex = -1\<rparr>"

definition addOperation :: "operation \<Rightarrow> room \<Rightarrow> operation \<times> room" where
  "addOperation operation r =
     (let ops = slice0 (operations r) (currentOperationIndex r + 1) @ [operation]
      in (operation,
          r\<lparr>operations := ops, currentOperationIndex := int (length ops) - 1\<rparr>))"

definition undo :: "room \<Rightarrow> operation option \<times> room" where
  "undo r =
     (if currentOperationIndex r < 0 then (None, r)
      else (js_index (operations r) (currentOperationIndex r),
            r\<lparr>currentOperationIndex := currentOperationIndex r - 1\<rparr>))"

definition redo :: "room \<Rightarrow> operation option \<times> room" where
  "redo r =
     (if currentOperationIndex r \<ge> int (length (operations r)) - 1 then (None, r)
      else (js_index (operations r) (currentOperationIndex r + 1),
            r\<lparr>currentOperationIndex := currentOperationIndex r + 1\<rparr>))"

definition getOperations :: "room \<Rightarrow> operation list" where
  "getOperations r = slice0 (operations r) (currentOperationIndex r + 1)"

definition addUser :: "string \<Rightarrow> user \<Rightarrow> room \<Rightarrow> room" where
  "addUser uid u r = r\<lparr>users := map_set uid u (users r)\<rparr>"

definition removeUser :: "string \<Rightarrow> room \<Rightarrow> room" where
  "removeUser uid r = r\<lparr>users := map_delete uid (users r)\<rparr>"

definition getUsers :: "room \<Rightarrow> user list" where
  "getUsers r = map snd (users r)"

definition clear :: "room \<Rightarrow> room" where
  "clear r = r\<lparr>operations := [], currentOperationIndex := -1\<rparr>"

text \<open>
  The data model's range of the cursor: between -1 and the last index. A new room
  has it and every method keeps it.
\<close>

definition cursor_ok :: "room \<Rightarrow> bool" where
  "cursor_ok r =
     (-1 \<le> currentOperationIndex r \<and>
      currentOperationIndex r \<le> int (length (operations r)) - 1)"

text \<open>A run of \<open>n\<close> calls of \<open>redo()\<close>, and a run of mixed undo and redo calls.\<close>

fun redo_times :: "nat \<Rightarrow> room \<Rightarrow> room" where
  "redo_times 0 r = r"
| "redo_times (Suc n) r = redo_times n (snd (redo r))"

datatype log_call = Undo | Redo

fun call :: "log_call \<Rightarrow> room \<Rightarrow> operation option \<times> room" where
  "call Undo r = undo r"
| "call Redo r = redo r"

fun calls :: "log_call list \<Rightarrow> room \<Rightarrow> room" where
  "calls [] r = r"
| "calls (c # cs) r = calls cs (snd (call c r))"

subsection \<open>The server state and the socket.io transport\<close>

text \<open>
  The closure variables of one connection, the registry \<open>rooms\<close>, the map \<open>users\<close>
  (here \<open>users_by_socket\<close>, keyed by socket id), the live connections, and the
  transport's own groups: \<open>groups g\<close> is the set of sockets that joined the socket.io
  room \<open>g\<close> with \<open>socket.join\<close>.
\<close>

record conn =
  currentRoom :: string
  currentUser :: "user option"

record server =
  rooms :: "string \<rightharpoonup> room"
  users_by_socket :: "string \<rightharpoonup> user"
  conns :: "string \<rightharpoonup> conn"
  groups :: "string \<Rightarrow> string set"

definition init_server :: server where
  "init_server =
     \<lparr>rooms = Map.empty, users_by_socket = Map.empty, conns = Map.empty,
      groups = (\<lambda>g. {})\<rparr>"

text \<open>
  What a handler sends: \<open>socket.emit\<close> (the socket alone), \<open>socket.to(g).emit\<close> (the
  group without the sender) and \<open>io.to(g).emit\<close> (the whole group). The \<open>operationId\<close>
  of an undo or redo message is \<open>None\<close> when the operation has no \<open>id\<close>.
\<close>

datatype audience = ToSocket string | ToRoomExcept string string | ToRoom string

datatype message =
    RoomState "operation list" "user list"
  | UserJoined user
  | UserLeft user
  | UsersUpdate "user list"
  | DrawEventMsg operation
  | CursorMoveMsg string
  | OperationUndoMsg "string option" int
  | OperationRedoMsg "string option" int
  | CanvasClearMsg
  | Pong string

type_synonym emit = "audience \<times> message"

text \<open>
  A handler ends with the messages it emitted or with an exception. The only
  exception that server.js can raise in a handler is the \<open>TypeError\<close> of reading a
  property of \<open>undefined\<close> or \<open>null\<close>.
\<close>

datatype error = TypeError

type_synonym outcome = "error + emit list"

definition emits_of :: "outcome \<Rightarrow> emit list" where
  "emits_of out = (case out of Inl e \<Rightarrow> [] | Inr ms \<Rightarrow> ms)"

text \<open>
  The sockets an emit reaches. socket.io excludes from \<open>socket.to(g)\<close> the sockets of
  the sender's own group, the one named by its socket id.
\<close>

fun recipients :: "(string \<Rightarrow> string set) \<Rightarrow> audience \<Rightarrow> string set" where
  "recipients gs (ToSocket sid) = {sid}"
| "recipients gs (ToRoomExcept g sid) = gs g - gs sid"
| "recipients gs (ToRoom g) = gs g"

definition socket_join :: "string \<Rightarrow> string \<Rightarrow> (string \<Rightarrow> string set) \<Rightarrow> (string \<Rightarrow> string set)" where
  "socket_join sid g gs = gs(g := insert sid (gs g))"

definition socket_leave :: "string \<Rightarrow> string \<Rightarrow> (string \<Rightarrow> string set) \<Rightarrow> (string \<Rightarrow> string set)" where
  "socket_leave sid g gs = gs(g := gs g - {sid})"

definition socket_leave_all :: "string \<Rightarrow> (string \<Rightarrow> string set) \<Rightarrow> (string \<Rightarrow> string set)" where
  "socket_leave_all sid gs = (\<lambda>g. gs g - {sid})"

subsection \<open>getRoom\<close>

definition getRoom :: "string \<Rightarrow> (string \<rightharpoonup> room) \<Rightarrow> room \<times> (string \<rightharpoonup> room)" where
  "getRoom rid rs =
     (case rs rid of
        None \<Rightarrow> (new_Room rid, rs(rid \<mapsto> new_Room rid))
      | Some r \<Rightarrow> (r, rs))"

subsection \<open>The handlers of one connection\<close>

text \<open>
  Each handler takes the socket id, the connection's closure variables and the
  server state, and returns the state it leaves and its outcome. A \<open>Room\<close> is an
  object held by the registry, so a method call on the result of \<open>getRoom\<close> is written
  back under the room's key.

  \<open>const { roomId = 'default', ... } = data\<close>: \<open>join_target\<close> is the room a
  \<open>room:join\<close> payload names, with the default filled in when the field is absent.
  Destructuring \<open>undefined\<close> or \<open>null\<close> throws before the handler has changed anything.
\<close>

definition join_target :: "join_data \<Rightarrow> string" where
  "join_target d = (case jd_roomId d of None \<Rightarrow> ''default'' | Some x \<Rightarrow> x)"

definition make_user :: "string \<Rightarrow> join_data \<Rightarrow> user" where
  "make_user sid d =
     (case jd_userData d of
        None \<Rightarrow>
          \<lparr>u_id = or_else (jd_userId d) sid, socketId = sid, color = None, online = None\<rparr>
      | Some ud \<Rightarrow>
          \<lparr>u_id = (case ud_id ud of None \<Rightarrow> or_else (jd_userId d) sid | Some x \<Rightarrow> x),
           socketId = (case ud_socketId ud of None \<Rightarrow> sid | Some x \<Rightarrow> x),
           color = ud_color ud,
           online = ud_online ud\<rparr>)"

definition on_join :: "string \<Rightarrow> conn \<Rightarrow> join_data option \<Rightarrow> server \<Rightarrow> server \<times> outcome" where
  "on_join sid c data s =
     (case data of
        None \<Rightarrow> (s, Inl TypeError)
      | Some d \<Rightarrow>
          (let rid = join_target d;
               gs = socket_join sid rid (socket_leave sid (currentRoom c) (groups s));
               (r, rs) = getRoom rid (rooms s);
               cu = make_user sid d;
               r' = addUser (u_id cu) cu r
           in (s\<lparr>rooms := rs(rid \<mapsto> r'),
                 users_by_socket := (users_by_socket s)(sid \<mapsto> cu),
                 conns := (conns s)(sid \<mapsto> \<lparr>currentRoom = rid, currentUser = Some cu\<rparr>),
                 groups := gs\<rparr>,
               Inr [(ToSocket sid, RoomState (getOperations r') (getUsers r')),
                    (ToRoomExcept rid sid, UserJoined cu),
                    (ToRoom rid, UsersUpdate (getUsers r'))])))"

text \<open>
  \<open>draw:event\<close>: \<open>getRoom\<close> runs first, so a payload that is \<open>undefined\<close> or \<open>null\<close>
  throws at \<open>operation.timestamp\<close> after the room has been looked up or created. Any
  other payload is stored and broadcast. \<open>now\<close> is the value of \<open>Date.now()\<close> when the
  handler runs.
\<close>

definition on_draw :: "string \<Rightarrow> conn \<Rightarrow> operation option \<Rightarrow> int \<Rightarrow> server \<Rightarrow> server \<times> outcome" where
  "on_draw sid c payload now s =
     (let (r, rs) = getRoom (currentRoom c) (rooms s)
      in case payload of
           None \<Rightarrow> (s\<lparr>rooms := rs\<rparr>, Inl TypeError)
         | Some operation \<Rightarrow>
             (let operation' = (if timestamp_missing operation
                                then set_timestamp operation now else operation);
                  (savedOperation, r') = addOperation operation' r
              in (s\<lparr>rooms := rs(currentRoom c \<mapsto> r')\<rparr>,
                  Inr [(ToRoomExcept (currentRoom c) sid, DrawEventMsg savedOperation)])))"

definition on_cursor :: "string \<Rightarrow> conn \<Rightarrow> string \<Rightarrow> server \<Rightarrow> server \<times> outcome" where
  "on_cursor sid c d s = (s, Inr [(ToRoomExcept (currentRoom c) sid, CursorMoveMsg d)])"

text \<open>
  \<open>if (undoneOperation)\<close> is a test for truthiness: nothing is emitted when \<open>undo()\<close>
  returned \<open>null\<close>, and nothing is emitted when it returned a falsy stored value, although
  the cursor has moved then. \<open>operation:redo\<close> is written the same way.
\<close>

definition on_undo :: "string \<Rightarrow> conn \<Rightarrow> server \<Rightarrow> server \<times> outcome" where
  "on_undo sid c s =
     (let (r, rs) = getRoom (currentRoom c) (rooms s);
          (undoneOperation, r') = undo r;
          s' = s\<lparr>rooms := rs(currentRoom c \<mapsto> r')\<rparr>
      in case undoneOperation of
           None \<Rightarrow> (s', Inr [])
         | Some operation \<Rightarrow>
             (if truthy operation
              then (s', Inr [(ToRoom (currentRoom c),
                              OperationUndoMsg (id_of operation) (currentOperationIndex r'))])
              else (s', Inr [])))"

definition on_redo :: "string \<Rightarrow> conn \<Rightarrow> server \<Rightarrow> server \<times> outcome" where
  "on_redo sid c s =
     (let (r, rs) = getRoom (currentRoom c) (rooms s);
          (redoneOperation, r') = redo r;
          s' = s\<lparr>rooms := rs(currentRoom c \<mapsto> r')\<rparr>
      in case redoneOperation of
           None \<Rightarrow> (s', Inr [])
         | Some operation \<Rightarrow>
             (if truthy operation
              then (s', Inr [(ToRoom (currentRoom c),
                              OperationRedoMsg (id_of operation) (currentOperationIndex r'))])
              else (s', Inr [])))"

definition on_clear :: "string \<Rightarrow> conn \<Rightarrow> server \<Rightarrow> server \<times> outcome" where
  "on_clear sid c s =
     (let (r, rs) = getRoom (currentRoom c) (rooms s)
      in (s\<lparr>rooms := rs(currentRoom c \<mapsto> clear r)\<rparr>,
          Inr [(ToRoom (currentRoom c), CanvasClearMsg)]))"

definition on_ping :: "string \<Rightarrow> string \<Rightarrow> server \<Rightarrow> server \<times> outcome" where
  "on_ping sid token s = (s, Inr [(ToSocket sid, Pong token)])"

text \<open>
  \<open>disconnect\<close>: socket.io has taken the socket out of every group before the
  handler runs. The first block runs for a connection that joined; the second block
  deletes the connection's current room when it has no member.
\<close>

definition delete_if_empty :: "string \<Rightarrow> (string \<rightharpoonup> room) \<Rightarrow> (string \<rightharpoonup> room)" where
  "delete_if_empty rid rs =
     (case rs rid of
        None \<Rightarrow> rs
      | Some r \<Rightarrow> (if length (users r) = 0 then rs(rid := None) else rs))"

definition on_disconnect :: "string \<Rightarrow> conn \<Rightarrow> server \<Rightarrow> server \<times> outcome" where
  "on_disconnect sid c s0 =
     (let s = s0\<lparr>groups := socket_leave_all sid (groups s0),
                 conns := (conns s0)(sid := None)\<rparr>;
          (s1, out) =
            (case currentUser c of
               None \<Rightarrow> (s, [])
             | Some cu \<Rightarrow>
                 (let (r, rs) = getRoom (currentRoom c) (rooms s);
                      r' = removeUser (u_id cu) r
                  in (s\<lparr>rooms := rs(currentRoom c \<mapsto> r'),
                        users_by_socket := (users_by_socket s)(sid := None)\<rparr>,
                      [(ToRoomExcept (currentRoom c) sid, UserLeft cu),
                       (ToRoom (currentRoom c), UsersUpdate (getUsers r'))])))
      in (s1\<lparr>rooms := delete_if_empty (currentRoom c) (rooms s1)\<rparr>, Inr out))"

subsection \<open>Events and runs\<close>

text \<open>
  \<open>io.on('connection')\<close> gives a new socket its closure variables and puts it in the
  group named by its own id. Every other event is dispatched to the handler of a live
  connection; an event for a socket that is not connected does not occur and leaves
  the state as it is. The payload of \<open>room:join\<close> and of \<open>draw:event\<close> is \<open>None\<close> when
  the client sent \<open>undefined\<close>, \<open>null\<close> or nothing.

  server.js catches no exception. What becomes of the process after an uncaught one
  is decided outside server.js; a run goes on from the state the handler left at the
  throw, so the states of runs include those of a process that stops there.
\<close>

datatype event =
    Connect
  | RoomJoin "join_data option"
  | DrawEvent "operation option" int
  | CursorMove string
  | OperationUndo
  | OperationRedo
  | CanvasClear
  | Ping string
  | Disconnect

definition on_connection :: "string \<Rightarrow> server \<Rightarrow> server \<times> outcome" where
  "on_connection sid s =
     (s\<lparr>conns := (conns s)(sid \<mapsto> \<lparr>currentRoom = ''default'', currentUser = None\<rparr>),
        groups := socket_join sid sid (groups s)\<rparr>, Inr [])"

fun handle :: "string \<Rightarrow> conn \<Rightarrow> event \<Rightarrow> server \<Rightarrow> server \<times> outcome" where
  "handle sid c Connect s = (s, Inr [])"
| "handle sid c (RoomJoin data) s = on_join sid c data s"
| "handle sid c (DrawEvent payload now) s = on_draw sid c payload now s"
| "handle sid c (CursorMove d) s = on_cursor sid c d s"
| "handle sid c OperationUndo s = on_undo sid c s"
| "handle sid c OperationRedo s = on_redo sid c s"
| "handle sid c CanvasClear s = on_clear sid c s"
| "handle sid c (Ping token) s = on_ping sid token s"
| "handle sid c Disconnect s = on_disconnect sid c s"

definition step :: "server \<Rightarrow> string \<times> event \<Rightarrow> server \<times> outcome" where
  "step s e =
     (case conns s (fst e) of
        None \<Rightarrow> (if snd e = Connect then on_connection (fst e) s else (s, Inr []))
      | Some c \<Rightarrow> handle (fst e) c (snd e) s)"

fun run :: "server \<Rightarrow> (string \<times> event) list \<Rightarrow> server" where
  "run s [] = s"
| "run s (e # es) = run (fst (step s e)) es"

text \<open>Whether an event is a \<open>room:join\<close> that targets the room \<open>rid\<close>.\<close>

fun joins_room :: "string \<Rightarrow> string \<times> event \<Rightarrow> bool" where
  "joins_room rid (sid, RoomJoin (Some d)) = (join_target d = rid)"
| "joins_room rid (sid, _) = False"

subsection \<open>Predicates on messages and states\<close>

text \<open>The \<open>id\<close> that the spread of \<open>userData\<close> writes over the participant's, if any.\<close>

definition spread_id :: "join_data \<Rightarrow> string option" where
  "spread_id d = (case jd_userData d of None \<Rightarrow> None | Some ud \<Rightarrow> ud_id ud)"

text \<open>Whether an emit carries a \<open>room:state\<close> message.\<close>

definition is_room_state :: "emit \<Rightarrow> bool" where
  "is_room_state e = (case snd e of RoomState ops us \<Rightarrow> True | _ \<Rightarrow> False)"

text \<open>
  Two facts that hold in every state a run reaches: every room of the registry has its
  cursor in range, and a connection that joined is in the transport group of its
  current room.
\<close>

definition rooms_ok :: "(string \<rightharpoonup> room) \<Rightarrow> bool" where
  "rooms_ok rs = (\<forall>rid r. rs rid = Some r \<longrightarrow> cursor_ok r)"

definition bound_in_group :: "server \<Rightarrow> bool" where
  "bound_in_group s =
     (\<forall>sid c. conns s sid = Some c \<longrightarrow> currentUser c \<noteq> None \<longrightarrow>
        sid \<in> groups s (currentRoom c))"

text \<open>
  The room \<open>rid\<close> is untouched: it is not in the registry and no connection has it as
  its current room.
\<close>

definition no_ref :: "string \<Rightarrow> server \<Rightarrow> bool" where
  "no_ref rid s =
     (rooms s rid = None \<and> (\<forall>sid c. conns s sid = Some c \<longrightarrow> currentRoom c \<noteq> rid))"

subsection \<open>Example values\<close>

text \<open>Four operations and a room holding the first three, with its cursor at \<open>i\<close>.\<close>

definition op_A :: operation where
  "op_A = JObj \<lparr>op_id = Some ''a'', op_userId = Some ''u1'', op_event = ''stroke a'',
                timestamp = Some 1\<rparr>"

definition op_B :: operation where
  "op_B = JObj \<lparr>op_id = Some ''b'', op_userId = Some ''u1'', op_event = ''stroke b'',
                timestamp = Some 2\<rparr>"

definition op_C :: operation where
  "op_C = JObj \<lparr>op_id = Some ''c'', op_userId = Some ''u2'', op_event = ''stroke c'',
                timestamp = Some 3\<rparr>"

definition props_D :: op_fields where
  "props_D = \<lparr>op_id = Some ''d'', op_userId = Some ''u2'', op_event = ''stroke d'',
              timestamp = None\<rparr>"

definition op_D :: operation where
  "op_D = JObj props_D"

definition room_ABC :: "int \<Rightarrow> room" where
  "room_ABC i = \<lparr>roomId = ''r1'', operations = [op_A, op_B, op_C], users = [], currentOperationIndex = i\<rparr>"

text \<open>
  Two \<open>room:join\<close> payloads, the closure variables of a connection that has not joined,
  and a server whose room \<open>r1\<close> holds \<open>A\<close>, \<open>B\<close> and a redo-pending \<open>C\<close>.
\<close>

definition join_AB :: join_data where
  "join_AB = \<lparr>jd_roomId = Some ''r1'', jd_userId = Some ''u2'', jd_userData = None\<rparr>"

definition join_bare :: join_data where
  "join_bare = \<lparr>jd_roomId = None, jd_userId = None, jd_userData = None\<rparr>"

text \<open>A \<open>room:join\<close> payload without \<open>userId\<close> whose \<open>userData\<close> carries an \<open>id\<close>.\<close>

definition join_override :: join_data where
  "join_override =
     \<lparr>jd_roomId = None, jd_userId = None,
      jd_userData = Some \<lparr>ud_id = Some ''x'', ud_socketId = None, ud_color = None,
                           ud_online = None\<rparr>\<rparr>"

definition fresh_conn :: conn where
  "fresh_conn = \<lparr>currentRoom = ''default'', currentUser = None\<rparr>"

definition server_ABC :: server where
  "server_ABC =
     \<lparr>rooms = [''r1'' \<mapsto> room_ABC 1], users_by_socket = Map.empty,
      conns = [''s2'' \<mapsto> fresh_conn], groups = (\<lambda>g. if g = ''s2'' then {''s2''} else {})\<rparr>"

text \<open>
  Two runs from the empty server: socket \<open>s1\<close> connects; and socket \<open>s1\<close> connects,
  joins room \<open>r1\<close> as \<open>u1\<close> and then joins room \<open>r2\<close>.
\<close>

definition join_r1 :: join_data where
  "join_r1 = \<lparr>jd_roomId = Some ''r1'', jd_userId = Some ''u1'', jd_userData = None\<rparr>"

definition join_r2 :: join_data where
  "join_r2 = \<lparr>jd_roomId = Some ''r2'', jd_userId = Some ''u1'', jd_userData = None\<rparr>"

definition after_switch :: server where
  "after_switch =
     run init_server
       [(''s1'', Connect), (''s1'', RoomJoin (Some join_r1)), (''s1'', RoomJoin (Some join_r2))]"

definition after_connect :: server where
  "after_connect = run init_server [(''s1'', Connect)]"

text \<open>
  The run in which socket \<open>s1\<close> connects and, without joining, draws \<open>A\<close>, \<open>B\<close> and \<open>C\<close>
  and undoes once; and the room \<open>default\<close> holding the three, with its cursor at \<open>i\<close>.
\<close>

definition after_unjoined :: server where
  "after_unjoined =
     run init_server
       [(''s1'', Connect), (''s1'', DrawEvent (Some op_A) 1), (''s1'', DrawEvent (Some op_B) 2),
        (''s1'', DrawEvent (Some op_C) 3), (''s1'', OperationUndo)]"

definition room_default :: "int \<Rightarrow> room" where
  "room_default i =
     \<lparr>roomId = ''default'', operations = [op_A, op_B, op_C], users = [],
      currentOperationIndex = i\<rparr>"

text \<open>
  The run in which socket \<open>s1\<close> connects, joins \<open>r1\<close> as \<open>u1\<close> and draws \<open>A\<close>, the same
  run followed by an undo, and the closure variables and the room that the first
  leaves.
\<close>

definition after_draw :: server where
  "after_draw =
     run init_server
       [(''s1'', Connect), (''s1'', RoomJoin (Some join_r1)), (''s1'', DrawEvent (Some op_A) 5)]"

definition after_undo :: server where
  "after_undo =
     run init_server
       [(''s1'', Connect), (''s1'', RoomJoin (Some join_r1)), (''s1'', DrawEvent (Some op_A) 5),
        (''s1'', OperationUndo)]"

definition bound_r1 :: conn where
  "bound_r1 = \<lparr>currentRoom = ''r1'', currentUser = Some (make_user ''s1'' join_r1)\<rparr>"

definition room_A :: room where
  "room_A =
     \<lparr>roomId = ''r1'', operations = [op_A], users = [(''u1'', make_user ''s1'' join_r1)],
      currentOperationIndex = 0\<rparr>"

text \<open>
  The run in which socket \<open>s1\<close> joins \<open>r1\<close> as \<open>u1\<close> and draws \<open>A\<close>, and socket \<open>s2\<close> then
  joins \<open>r1\<close> as \<open>u2\<close>; and the room it leaves, with both members.
\<close>

definition after_two :: server where
  "after_two =
     run init_server
       [(''s1'', Connect), (''s1'', RoomJoin (Some join_r1)), (''s1'', DrawEvent (Some op_A) 5),
        (''s2'', Connect), (''s2'', RoomJoin (Some join_AB))]"

definition room_two :: room where
  "room_two =
     \<lparr>roomId = ''r1'', operations = [op_A],
      users = [(''u1'', make_user ''s1'' join_r1), (''u2'', make_user ''s2'' join_AB)],
      currentOperationIndex = 0\<rparr>"

text \<open>
  The run in which socket \<open>s1\<close> connects, joins \<open>r1\<close> as \<open>u1\<close> and sends the number 0 as
  the payload of a \<open>draw:event\<close>; and the room holding that 0, with its cursor at \<open>i\<close>.
\<close>

definition after_zero :: server where
  "after_zero =
     run init_server
       [(''s1'', Connect), (''s1'', RoomJoin (Some join_r1)), (''s1'', DrawEvent (Some (JNum 0)) 5)]"

definition room_zero :: "int \<Rightarrow> room" where
  "room_zero i =
     \<lparr>roomId = ''r1'', operations = [JNum 0], users = [(''u1'', make_user ''s1'' join_r1)],
      currentOperationIndex = i\<rparr>"

section \<open>The operation log\<close>

lemma slice0_take: "0 \<le> e \<Longrightarrow> slice0 xs e = take (nat e) xs"
  by (auto simp: slice0_def Let_def min_def)

lemma cursor_ok_new_Room: "cursor_ok (new_Room rid)"
  by (simp add: cursor_ok_def new_Room_def)

lemma cursor_ok_addOperation: "cursor_ok r \<Longrightarrow> cursor_ok (snd (addOperation operation r))"
  by (simp add: cursor_ok_def addOperation_def Let_def)

lemma cursor_ok_undo: "cursor_ok r \<Longrightarrow> cursor_ok (snd (undo r))"
  by (auto simp: cursor_ok_def undo_def)

lemma cursor_ok_redo: "cursor_ok r \<Longrightarrow> cursor_ok (snd (redo r))"
  by (auto simp: cursor_ok_def redo_def)

lemma cursor_ok_clear: "cursor_ok (clear r)"
  by (simp add: cursor_ok_def clear_def)

lemma redo_at_end: "currentOperationIndex r \<ge> int (length (operations r)) - 1 \<Longrightarrow> redo r = (None, r)"
  by (simp add: redo_def)

lemma redo_times_at_end:
  "currentOperationIndex r \<ge> int (length (operations r)) - 1 \<Longrightarrow> redo_times n r = r"
  by (induction n) (simp_all add: redo_at_end)

lemma addOperation_at_end:
  "currentOperationIndex (snd (addOperation operation r)) =
     int (length (operations (snd (addOperation operation r)))) - 1"
  by (simp add: addOperation_def Let_def)

lemma addOperation_operations:
  "-1 \<le> currentOperationIndex r \<Longrightarrow>
   operations (snd (addOperation operation r)) =
     take (nat (currentOperationIndex r + 1)) (operations r) @ [operation]"
  by (simp add: addOperation_def Let_def slice0_take)

lemma getOperations_addOperation:
  "-1 \<le> currentOperationIndex r \<Longrightarrow>
   getOperations (snd (addOperation operation r)) = getOperations r @ [operation]"
proof -
  assume lo: "-1 \<le> currentOperationIndex r"
  have "getOperations (snd (addOperation operation r)) =
          operations (snd (addOperation operation r))"
    by (simp add: getOperations_def addOperation_at_end slice0_take)
  also have "\<dots> = getOperations r @ [operation]"
    using lo by (simp add: addOperation_operations getOperations_def slice0_take)
  finally show ?thesis .
qed

text \<open>
  Claim C1. On a log whose cursor is in range and strictly before the last index,
  \<open>addOperation\<close> keeps exactly the operations up to the cursor, appends the new one
  and puts the cursor on it; a \<open>redo()\<close> after it returns nothing and any number of
  \<open>redo()\<close> calls leaves the log as it is. On a log \<open>[A, B, C]\<close> with the cursor at
  \<open>C\<close>, \<open>undo()\<close> then \<open>addOperation(D)\<close> gives the visible sequence \<open>[A, B, D]\<close>, the
  stored operations are \<open>[A, B, D]\<close> as well, and they stay so after \<open>n\<close> calls of
  \<open>redo()\<close>: \<open>C\<close> is gone from the log.
\<close>

theorem append_truncates_redo:
  "(cursor_ok r \<and> currentOperationIndex r < int (length (operations r)) - 1 \<longrightarrow>
      operations (snd (addOperation operation r)) =
        take (nat (currentOperationIndex r + 1)) (operations r) @ [operation] \<and>
      currentOperationIndex (snd (addOperation operation r)) =
        int (length (operations (snd (addOperation operation r)))) - 1 \<and>
      getOperations (snd (addOperation operation r)) = getOperations r @ [operation] \<and>
      redo (snd (addOperation operation r)) = (None, snd (addOperation operation r)) \<and>
      redo_times n (snd (addOperation operation r)) = snd (addOperation operation r)) \<and>
   (operations r0 = [A, B, C] \<and> currentOperationIndex r0 = 2 \<longrightarrow>
      getOperations (snd (addOperation D (snd (undo r0)))) = [A, B, D] \<and>
      operations (redo_times n (snd (addOperation D (snd (undo r0))))) = [A, B, D] \<and>
      getOperations (redo_times n (snd (addOperation D (snd (undo r0))))) = [A, B, D])"
proof (intro conjI impI)
  assume h: "cursor_ok r \<and> currentOperationIndex r < int (length (operations r)) - 1"
  then have lo: "-1 \<le> currentOperationIndex r"
    by (simp add: cursor_ok_def)
  show "operations (snd (addOperation operation r)) =
        take (nat (currentOperationIndex r + 1)) (operations r) @ [operation]"
    using lo by (rule addOperation_operations)
  show "currentOperationIndex (snd (addOperation operation r)) =
        int (length (operations (snd (addOperation operation r)))) - 1"
    by (rule addOperation_at_end)
  show "getOperations (snd (addOperation operation r)) = getOperations r @ [operation]"
    using lo by (rule getOperations_addOperation)
  show "redo (snd (addOperation operation r)) = (None, snd (addOperation operation r))"
    by (rule redo_at_end) (simp add: addOperation_at_end)
  show "redo_times n (snd (addOperation operation r)) = snd (addOperation operation r)"
    by (rule redo_times_at_end) (simp add: addOperation_at_end)
next
  assume h: "operations r0 = [A, B, C] \<and> currentOperationIndex r0 = 2"
  let ?r = "snd (addOperation D (snd (undo r0)))"
  have u: "snd (undo r0) = r0\<lparr>currentOperationIndex := 1\<rparr>"
    using h by (simp add: undo_def)
  have ops: "operations ?r = [A, B, D]"
    using h by (simp add: u addOperation_def Let_def slice0_def)
  have stay: "redo_times n ?r = ?r"
    by (rule redo_times_at_end) (simp add: addOperation_at_end)
  show "getOperations ?r = [A, B, D]"
    using ops by (simp add: getOperations_def addOperation_at_end slice0_def Let_def)
  then show "getOperations (redo_times n ?r) = [A, B, D]"
    by (simp only: stay)
  show "operations (redo_times n ?r) = [A, B, D]"
    using ops by (simp only: stay)
qed

theorem append_truncates_redo_witness:
  "cursor_ok (room_ABC 0) \<and>
   currentOperationIndex (room_ABC 0) < int (length (operations (room_ABC 0))) - 1 \<and>
   operations (snd (addOperation op_D (room_ABC 0))) = [op_A, op_D] \<and>
   redo (snd (addOperation op_D (room_ABC 0))) = (None, snd (addOperation op_D (room_ABC 0))) \<and>
   operations (room_ABC 2) = [op_A, op_B, op_C] \<and> currentOperationIndex (room_ABC 2) = 2 \<and>
   getOperations (redo_times 3 (snd (addOperation op_D (snd (undo (room_ABC 2)))))) = [op_A, op_B, op_D] \<and>
   op_C \<notin> set (operations (redo_times 3 (snd (addOperation op_D (snd (undo (room_ABC 2)))))))"
  using append_truncates_redo [of "room_ABC 0" op_D 3 "room_ABC 2" op_A op_B op_C op_D]
  by (simp add: room_ABC_def cursor_ok_def op_A_def op_B_def op_C_def op_D_def props_D_def)

text \<open>
  Claim C6. On a log whose cursor is in range and above -1, \<open>undo()\<close> followed by
  \<open>redo()\<close> gives back the same room state (operations and cursor), the same visible
  sequence, and \<open>redo()\<close> returns the operation that \<open>undo()\<close> returned.
\<close>

theorem undo_redo_symmetry:
  "cursor_ok r \<Longrightarrow> currentOperationIndex r > -1 \<Longrightarrow>
   snd (redo (snd (undo r))) = r \<and>
   getOperations (snd (redo (snd (undo r)))) = getOperations r \<and>
   fst (redo (snd (undo r))) = fst (undo r)"
  by (simp add: cursor_ok_def undo_def redo_def)

theorem undo_redo_symmetry_witness:
  "cursor_ok (room_ABC 1) \<and> currentOperationIndex (room_ABC 1) > -1 \<and>
   snd (undo (room_ABC 1)) = room_ABC 0 \<and>
   snd (redo (snd (undo (room_ABC 1)))) = room_ABC 1 \<and>
   getOperations (snd (redo (snd (undo (room_ABC 1))))) = [op_A, op_B]"
  using undo_redo_symmetry [of "room_ABC 1"]
  by (simp add: room_ABC_def cursor_ok_def undo_def getOperations_def slice0_def)

text \<open>
  Claim C7. With the cursor at -1, \<open>undo()\<close> returns no operation and the room is
  unchanged; with the cursor at the last index, \<open>redo()\<close> returns no operation and the
  room is unchanged. Neither method has a failing branch: both are total functions
  that return a result and a room for every room state.
\<close>

theorem undo_redo_boundary_noops:
  "(currentOperationIndex r = -1 \<longrightarrow> undo r = (None, r)) \<and>
   (currentOperationIndex r = int (length (operations r)) - 1 \<longrightarrow> redo r = (None, r))"
  by (simp add: undo_def redo_def)

theorem undo_redo_boundary_noops_witness:
  "currentOperationIndex (room_ABC (-1)) = -1 \<and>
   undo (room_ABC (-1)) = (None, room_ABC (-1)) \<and>
   currentOperationIndex (room_ABC 2) = int (length (operations (room_ABC 2))) - 1 \<and>
   redo (room_ABC 2) = (None, room_ABC 2)"
  using undo_redo_boundary_noops [of "room_ABC (-1)"] undo_redo_boundary_noops [of "room_ABC 2"]
  by (simp add: room_ABC_def)

lemma call_clear: "call c (clear r) = (None, clear r)"
  by (cases c) (simp_all add: clear_def undo_def redo_def)

lemma calls_clear: "calls cs (clear r) = clear r"
  by (induction cs) (simp_all add: call_clear)

text \<open>
  Claim C8. After \<open>clear()\<close> the visible sequence and the stored sequence are empty
  and the cursor is -1; \<open>redo()\<close> and \<open>undo()\<close> return nothing and change nothing, and
  so does every call after any sequence \<open>cs\<close> of undo and redo calls: nothing that was
  in the log before the clear comes back.
\<close>

theorem clear_is_absolute:
  "getOperations (clear r) = [] \<and>
   operations (clear r) = [] \<and>
   currentOperationIndex (clear r) = -1 \<and>
   redo (clear r) = (None, clear r) \<and>
   undo (clear r) = (None, clear r) \<and>
   calls cs (clear r) = clear r \<and>
   call c (calls cs (clear r)) = (None, clear r)"
  by (simp add: calls_clear call_clear) (simp add: clear_def getOperations_def slice0_def undo_def redo_def)

section \<open>Joining a room\<close>

lemma step_live: "conns s sid = Some c \<Longrightarrow> step s (sid, e) = handle sid c e s"
  by (simp add: step_def)

lemma map_set_mem: "(k, v) \<in> set (map_set k v kvs)"
  by (induction kvs) auto

lemma map_set_not_Nil: "map_set k v kvs \<noteq> []"
  by (cases kvs) (auto split: if_splits)

text \<open>
  Claim C5. When a live connection joins a room that exists and whose visible
  operations are \<open>vis\<close>, the handler ends without an exception and emits three
  messages: \<open>room:state\<close> with
  \<open>operations = vis\<close> (in that order, whatever lies beyond the cursor) on the joining
  socket, \<open>user:joined\<close> to the rest of the room and \<open>users:update\<close> to the room. The
  only \<open>room:state\<close> among them is the first, and its only recipient is the joining
  socket.
\<close>

theorem join_snapshot:
  assumes "conns s sid = Some c"
    and "rooms s (join_target d) = Some r"
    and "getOperations r = vis"
  shows "snd (step s (sid, RoomJoin (Some d))) =
           Inr [(ToSocket sid, RoomState vis (getUsers (addUser (u_id (make_user sid d)) (make_user sid d) r))),
                (ToRoomExcept (join_target d) sid, UserJoined (make_user sid d)),
                (ToRoom (join_target d),
                   UsersUpdate (getUsers (addUser (u_id (make_user sid d)) (make_user sid d) r)))] \<and>
         filter is_room_state (emits_of (snd (step s (sid, RoomJoin (Some d))))) =
           [(ToSocket sid, RoomState vis (getUsers (addUser (u_id (make_user sid d)) (make_user sid d) r)))] \<and>
         recipients (groups (fst (step s (sid, RoomJoin (Some d))))) (ToSocket sid) = {sid}"
  using assms
  by (simp add: step_live on_join_def getRoom_def Let_def is_room_state_def
      getOperations_def addUser_def emits_of_def)

theorem join_snapshot_witness:
  "conns server_ABC ''s2'' = Some fresh_conn \<and>
   rooms server_ABC (join_target join_AB) = Some (room_ABC 1) \<and>
   operations (room_ABC 1) = [op_A, op_B, op_C] \<and>
   getOperations (room_ABC 1) = [op_A, op_B] \<and>
   filter is_room_state (emits_of (snd (step server_ABC (''s2'', RoomJoin (Some join_AB))))) =
     [(ToSocket ''s2'', RoomState [op_A, op_B] [make_user ''s2'' join_AB])]"
proof -
  have h1: "conns server_ABC ''s2'' = Some fresh_conn"
    by (simp add: server_ABC_def)
  have h2: "rooms server_ABC (join_target join_AB) = Some (room_ABC 1)"
    by (simp add: server_ABC_def join_AB_def join_target_def)
  have h3: "getOperations (room_ABC 1) = [op_A, op_B]"
    by (simp add: room_ABC_def getOperations_def slice0_def)
  have us: "getUsers (addUser (u_id (make_user ''s2'' join_AB)) (make_user ''s2'' join_AB) (room_ABC 1)) =
              [make_user ''s2'' join_AB]"
    by (simp add: room_ABC_def addUser_def getUsers_def)
  have ops: "operations (room_ABC 1) = [op_A, op_B, op_C]"
    by (simp add: room_ABC_def)
  from join_snapshot [OF h1 h2 h3]
  have "filter is_room_state (emits_of (snd (step server_ABC (''s2'', RoomJoin (Some join_AB))))) =
          [(ToSocket ''s2'', RoomState [op_A, op_B] [make_user ''s2'' join_AB])]"
    by (simp add: us is_room_state_def emits_of_def)
  with h1 h2 h3 ops show ?thesis
    by (intro conjI)
qed

section \<open>Switching rooms\<close>

lemma after_connect_eq:
  "after_connect =
     \<lparr>rooms = Map.empty, users_by_socket = Map.empty, conns = [''s1'' \<mapsto> fresh_conn],
      groups = socket_join ''s1'' ''s1'' (\<lambda>g. {})\<rparr>"
  by (simp add: after_connect_def init_server_def step_def on_connection_def fresh_conn_def)

text \<open>
  Claim C2. The run in which socket \<open>s1\<close> joins \<open>r1\<close> as \<open>u1\<close> and then joins
  \<open>r2\<close>: the connection is bound to \<open>r2\<close>, the socket has left the transport group
  \<open>r1\<close> and the participant is a member of \<open>r2\<close>, but the membership map of \<open>r1\<close>
  still holds the participant. The \<open>room:join\<close> handler calls \<open>socket.leave\<close> on the
  old room and never \<open>removeUser\<close>, which only the \<open>disconnect\<close> handler calls.
\<close>

theorem room_switch_keeps_old_membership:
  "map_option currentRoom (conns after_switch ''s1'') = Some ''r2'' \<and>
   ''s1'' \<notin> groups after_switch ''r1'' \<and>
   map_option users (rooms after_switch ''r1'') = Some [(''u1'', make_user ''s1'' join_r1)] \<and>
   map_option users (rooms after_switch ''r2'') = Some [(''u1'', make_user ''s1'' join_r2)]"
  by (simp add: after_switch_def init_server_def step_def on_connection_def on_join_def
      getRoom_def new_Room_def addUser_def make_user_def or_else_def join_target_def
      join_r1_def join_r2_def socket_join_def socket_leave_def Let_def)

section \<open>Missing fields\<close>

lemma last_addOperation: "last (operations (snd (addOperation operation r))) = operation"
  by (simp add: addOperation_def Let_def)

lemma getOperations_after_addOperation:
  "getOperations (snd (addOperation operation r)) = operations (snd (addOperation operation r))"
  by (simp add: getOperations_def addOperation_at_end slice0_take)

lemma operations_addOperation_not_Nil: "operations (snd (addOperation operation r)) \<noteq> []"
  by (simp add: addOperation_def Let_def)

lemma rooms_after_join:
  "conns s sid = Some c \<Longrightarrow>
   rooms (fst (step s (sid, RoomJoin (Some d)))) (join_target d) =
     Some (addUser (u_id (make_user sid d)) (make_user sid d) (fst (getRoom (join_target d) (rooms s))))"
  by (simp add: step_live on_join_def Let_def split: prod.splits)

lemma conns_after_join:
  "conns s sid = Some c \<Longrightarrow>
   conns (fst (step s (sid, RoomJoin (Some d)))) sid =
     Some \<lparr>currentRoom = join_target d, currentUser = Some (make_user sid d)\<rparr>"
  by (simp add: step_live on_join_def Let_def split: prod.splits)

lemma groups_after_join:
  "conns s sid = Some c \<Longrightarrow> sid \<in> groups (fst (step s (sid, RoomJoin (Some d)))) (join_target d)"
  by (simp add: step_live on_join_def Let_def socket_join_def split: prod.splits)

lemma emits_after_join:
  "conns s sid = Some c \<Longrightarrow>
   \<exists>ms. snd (step s (sid, RoomJoin (Some d))) = Inr ms \<and>
        map fst ms = [ToSocket sid, ToRoomExcept (join_target d) sid, ToRoom (join_target d)]"
  by (simp add: step_live on_join_def Let_def split: prod.splits)

lemma rooms_after_draw:
  "conns s sid = Some c \<Longrightarrow>
   rooms (fst (step s (sid, DrawEvent (Some operation) now))) (currentRoom c) =
     Some (snd (addOperation
                 (if timestamp_missing operation then set_timestamp operation now else operation)
                 (fst (getRoom (currentRoom c) (rooms s)))))"
  by (simp add: step_live on_draw_def Let_def split: prod.splits)

lemma emits_after_draw:
  "conns s sid = Some c \<Longrightarrow>
   snd (step s (sid, DrawEvent (Some operation) now)) =
     Inr [(ToRoomExcept (currentRoom c) sid,
           DrawEventMsg (if timestamp_missing operation then set_timestamp operation now
                         else operation))]"
  by (simp add: step_live on_draw_def Let_def addOperation_def split: prod.splits)

text \<open>
  The exceptions of the two handlers that read their payload: a \<open>room:join\<close> without a
  payload throws and changes nothing; a \<open>draw:event\<close> without a payload throws after
  \<open>getRoom\<close> has run, and nothing is stored or emitted.
\<close>

lemma join_without_payload_throws:
  "conns s sid = Some c \<Longrightarrow> step s (sid, RoomJoin None) = (s, Inl TypeError)"
  by (simp add: step_live on_join_def)

lemma draw_without_payload_throws:
  "conns s sid = Some c \<Longrightarrow>
   step s (sid, DrawEvent None now) =
     (s\<lparr>rooms := snd (getRoom (currentRoom c) (rooms s))\<rparr>, Inl TypeError)"
  by (simp add: step_live on_draw_def Let_def split: prod.splits)

lemma make_user_id:
  "u_id (make_user sid d) =
     (case spread_id d of None \<Rightarrow> or_else (jd_userId d) sid | Some x \<Rightarrow> x)"
  by (simp add: make_user_def spread_id_def split: option.splits)

text \<open>
  Claim C9, as stated, fails. A \<open>room:join\<close> without \<open>userId\<close> whose \<open>userData\<close> carries
  the id \<open>x\<close>: the participant's id is \<open>x\<close>, not the socket id \<open>s1\<close>, and \<open>x\<close> is the key
  of the membership entry. A \<open>draw:event\<close> whose payload is the number 0 has no
  timestamp, and 0 is stored and broadcast as it came.
\<close>

theorem missing_fields_defaulted_counterexample:
  "jd_userId join_override = None \<and>
   u_id (make_user ''s1'' join_override) = ''x'' \<and>
   map_option users
     (rooms (fst (step after_connect (''s1'', RoomJoin (Some join_override)))) ''default'') =
     Some [(''x'', make_user ''s1'' join_override)] \<and>
   timestamp_missing (JNum 0) \<and>
   map_option operations
     (rooms (fst (step after_connect (''s1'', DrawEvent (Some (JNum 0)) 7))) ''default'') =
     Some [JNum 0] \<and>
   snd (step after_connect (''s1'', DrawEvent (Some (JNum 0)) 7)) =
     Inr [(ToRoomExcept ''default'' ''s1'', DrawEventMsg (JNum 0))]"
  by (simp add: after_connect_eq fresh_conn_def step_def on_join_def on_draw_def getRoom_def
      new_Room_def addUser_def addOperation_def slice0_def make_user_def or_else_def
      join_target_def join_override_def Let_def)

text \<open>
  Claim C9, amended. For a live connection and a \<open>room:join\<close> payload whose fields can
  be read, the handler ends without an exception whichever fields are absent. Without
  \<open>roomId\<close> it binds the connection to the room \<open>default\<close> (closure variables,
  transport group and membership) and emits the three messages of a join. Without
  \<open>userId\<close>, and with no \<open>id\<close> inside \<open>userData\<close>, the participant's id is the socket id;
  an \<open>id\<close> inside \<open>userData\<close> becomes the participant's id. A \<open>draw:event\<close> whose payload
  is an object without \<open>timestamp\<close> ends without an exception: the object is stored as
  the last visible operation of the current room with \<open>timestamp\<close> set to the server's
  clock, and that stored object is what is broadcast.
\<close>

theorem missing_fields_defaulted:
  assumes live: "conns s sid = Some c"
  shows "(\<exists>ms. snd (step s (sid, RoomJoin (Some d))) = Inr ms) \<and>
         (jd_roomId d = None \<longrightarrow>
            conns (fst (step s (sid, RoomJoin (Some d)))) sid =
              Some \<lparr>currentRoom = ''default'', currentUser = Some (make_user sid d)\<rparr> \<and>
            sid \<in> groups (fst (step s (sid, RoomJoin (Some d)))) ''default'' \<and>
            (\<exists>r. rooms (fst (step s (sid, RoomJoin (Some d)))) ''default'' = Some r \<and>
                 (u_id (make_user sid d), make_user sid d) \<in> set (users r)) \<and>
            map fst (emits_of (snd (step s (sid, RoomJoin (Some d))))) =
              [ToSocket sid, ToRoomExcept ''default'' sid, ToRoom ''default'']) \<and>
         (jd_userId d = None \<and> spread_id d = None \<longrightarrow>
            u_id (make_user sid d) = sid \<and>
            map_option currentUser (conns (fst (step s (sid, RoomJoin (Some d)))) sid) =
              Some (Some (make_user sid d))) \<and>
         (spread_id d = Some x \<longrightarrow> u_id (make_user sid d) = x) \<and>
         (timestamp props = None \<longrightarrow>
            (\<exists>r. rooms (fst (step s (sid, DrawEvent (Some (JObj props)) now))) (currentRoom c) =
                   Some r \<and>
                 getOperations r \<noteq> [] \<and>
                 last (getOperations r) = JObj (props\<lparr>timestamp := Some now\<rparr>)) \<and>
            snd (step s (sid, DrawEvent (Some (JObj props)) now)) =
              Inr [(ToRoomExcept (currentRoom c) sid,
                    DrawEventMsg (JObj (props\<lparr>timestamp := Some now\<rparr>)))])"
proof (intro conjI impI)
  show "\<exists>ms. snd (step s (sid, RoomJoin (Some d))) = Inr ms"
    using emits_after_join [OF live, of d] by blast
next
  assume a: "jd_roomId d = None"
  then have t: "join_target d = ''default''"
    by (simp add: join_target_def)
  show "conns (fst (step s (sid, RoomJoin (Some d)))) sid =
          Some \<lparr>currentRoom = ''default'', currentUser = Some (make_user sid d)\<rparr>"
    using conns_after_join [OF live, of d] by (simp add: t)
  show "sid \<in> groups (fst (step s (sid, RoomJoin (Some d)))) ''default''"
    using groups_after_join [OF live, of d] by (simp add: t)
  show "\<exists>r. rooms (fst (step s (sid, RoomJoin (Some d)))) ''default'' = Some r \<and>
            (u_id (make_user sid d), make_user sid d) \<in> set (users r)"
    using rooms_after_join [OF live, of d] by (simp add: t addUser_def map_set_mem)
  show "map fst (emits_of (snd (step s (sid, RoomJoin (Some d))))) =
          [ToSocket sid, ToRoomExcept ''default'' sid, ToRoom ''default'']"
    using emits_after_join [OF live, of d] by (auto simp: t emits_of_def)
next
  assume a: "jd_userId d = None \<and> spread_id d = None"
  then show "u_id (make_user sid d) = sid"
    by (simp add: make_user_id or_else_def)
  show "map_option currentUser (conns (fst (step s (sid, RoomJoin (Some d)))) sid) =
          Some (Some (make_user sid d))"
    by (simp add: conns_after_join [OF live])
next
  assume "spread_id d = Some x"
  then show "u_id (make_user sid d) = x"
    by (simp add: make_user_id)
next
  assume a: "timestamp props = None"
  then have m: "timestamp_missing (JObj props)"
    by simp
  show "\<exists>r. rooms (fst (step s (sid, DrawEvent (Some (JObj props)) now))) (currentRoom c) =
              Some r \<and>
            getOperations r \<noteq> [] \<and>
            last (getOperations r) = JObj (props\<lparr>timestamp := Some now\<rparr>)"
    using rooms_after_draw [OF live, of "JObj props" now] m
    by (simp add: getOperations_after_addOperation last_addOperation
        operations_addOperation_not_Nil)
  show "snd (step s (sid, DrawEvent (Some (JObj props)) now)) =
          Inr [(ToRoomExcept (currentRoom c) sid,
                DrawEventMsg (JObj (props\<lparr>timestamp := Some now\<rparr>)))]"
    using emits_after_draw [OF live, of "JObj props" now] m by simp
qed

theorem missing_fields_defaulted_witness:
  "conns after_connect ''s1'' = Some fresh_conn \<and>
   jd_roomId join_bare = None \<and> jd_userId join_bare = None \<and> spread_id join_bare = None \<and>
   spread_id join_override = Some ''x'' \<and>
   timestamp props_D = None \<and>
   snd (step after_connect (''s1'', RoomJoin (Some join_bare))) \<noteq> Inl TypeError \<and>
   conns (fst (step after_connect (''s1'', RoomJoin (Some join_bare)))) ''s1'' =
     Some \<lparr>currentRoom = ''default'', currentUser = Some (make_user ''s1'' join_bare)\<rparr> \<and>
   u_id (make_user ''s1'' join_bare) = ''s1'' \<and>
   u_id (make_user ''s1'' join_override) = ''x'' \<and>
   snd (step after_connect (''s1'', DrawEvent (Some op_D) 7)) =
     Inr [(ToRoomExcept ''default'' ''s1'',
           DrawEventMsg (JObj (props_D\<lparr>timestamp := Some 7\<rparr>)))]"
proof -
  have h: "conns after_connect ''s1'' = Some fresh_conn"
    by (simp add: after_connect_eq)
  have b: "jd_roomId join_bare = None" "jd_userId join_bare = None" "spread_id join_bare = None"
    by (simp_all add: join_bare_def spread_id_def)
  have o: "spread_id join_override = Some ''x''"
    by (simp add: join_override_def spread_id_def)
  have t: "timestamp props_D = None"
    by (simp add: props_D_def)
  have c: "currentRoom fresh_conn = ''default''"
    by (simp add: fresh_conn_def)
  from missing_fields_defaulted [OF h, of join_bare "''zz''" props_D 7] b t c
  have 1: "snd (step after_connect (''s1'', RoomJoin (Some join_bare))) \<noteq> Inl TypeError"
    and 2: "conns (fst (step after_connect (''s1'', RoomJoin (Some join_bare)))) ''s1'' =
      Some \<lparr>currentRoom = ''default'', currentUser = Some (make_user ''s1'' join_bare)\<rparr>"
    and 3: "u_id (make_user ''s1'' join_bare) = ''s1''"
    and 4: "snd (step after_connect (''s1'', DrawEvent (Some op_D) 7)) =
     Inr [(ToRoomExcept ''default'' ''s1'',
           DrawEventMsg (JObj (props_D\<lparr>timestamp := Some 7\<rparr>)))]"
    by (auto simp: op_D_def)
  from missing_fields_defaulted [OF h, of join_override "''x''" props_D 7] o
  have 5: "u_id (make_user ''s1'' join_override) = ''x''"
    by blast
  from h b o t 1 2 3 4 5 show ?thesis
    by (intro conjI)
qed

section \<open>Events before any join\<close>

lemma rooms_after_undo:
  "conns s sid = Some c \<Longrightarrow>
   rooms (fst (step s (sid, OperationUndo))) (currentRoom c) =
     Some (snd (undo (fst (getRoom (currentRoom c) (rooms s)))))"
  by (simp add: step_live on_undo_def Let_def split: prod.splits option.splits)

lemma rooms_after_redo:
  "conns s sid = Some c \<Longrightarrow>
   rooms (fst (step s (sid, OperationRedo))) (currentRoom c) =
     Some (snd (redo (fst (getRoom (currentRoom c) (rooms s)))))"
  by (simp add: step_live on_redo_def Let_def split: prod.splits option.splits)

lemma rooms_after_clear:
  "conns s sid = Some c \<Longrightarrow>
   rooms (fst (step s (sid, CanvasClear))) (currentRoom c) =
     Some (clear (fst (getRoom (currentRoom c) (rooms s))))"
  by (simp add: step_live on_clear_def Let_def split: prod.splits)




lemma getRoom_absent: "rs rid = None \<Longrightarrow> getRoom rid rs = (new_Room rid, rs(rid \<mapsto> new_Room rid))"
  by (simp add: getRoom_def)

lemma getRoom_present: "rs rid = Some r \<Longrightarrow> getRoom rid rs = (r, rs)"
  by (simp add: getRoom_def)

lemma undo_new_Room: "undo (new_Room rid) = (None, new_Room rid)"
  by (simp add: undo_def new_Room_def)

lemma redo_new_Room: "redo (new_Room rid) = (None, new_Room rid)"
  by (simp add: redo_def new_Room_def)

lemma clear_new_Room: "clear (new_Room rid) = new_Room rid"
  by (simp add: clear_def new_Room_def)

lemma addOperation_new_Room:
  "snd (addOperation operation (new_Room rid)) =
     \<lparr>roomId = rid, operations = [operation], users = [], currentOperationIndex = 0\<rparr>"
  by (simp add: addOperation_def new_Room_def slice0_def Let_def)

lemma after_unjoined_eq:
  "after_unjoined =
     \<lparr>rooms = [''default'' \<mapsto> room_default 1], users_by_socket = Map.empty,
      conns = [''s1'' \<mapsto> fresh_conn], groups = socket_join ''s1'' ''s1'' (\<lambda>g. {})\<rparr>"
  by (simp add: after_unjoined_def init_server_def step_def on_connection_def on_draw_def
      on_undo_def getRoom_def new_Room_def addOperation_def undo_def js_index_def slice0_def
      op_A_def op_B_def op_C_def room_default_def fresh_conn_def Let_def)



section \<open>Facts of every reachable state\<close>

lemma rooms_ok_upd: "rooms_ok rs \<Longrightarrow> cursor_ok r \<Longrightarrow> rooms_ok (rs(rid \<mapsto> r))"
  by (simp add: rooms_ok_def)

lemma rooms_ok_getRoom:
  "rooms_ok rs \<Longrightarrow> cursor_ok (fst (getRoom rid rs)) \<and> rooms_ok (snd (getRoom rid rs))"
  by (auto simp: getRoom_def rooms_ok_def cursor_ok_new_Room split: option.splits)

lemma rooms_ok_delete_if_empty: "rooms_ok rs \<Longrightarrow> rooms_ok (delete_if_empty rid rs)"
  by (auto simp: delete_if_empty_def rooms_ok_def split: option.splits)

lemma cursor_ok_addUser: "cursor_ok r \<Longrightarrow> cursor_ok (addUser uid u r)"
  by (simp add: cursor_ok_def addUser_def)

lemma cursor_ok_removeUser: "cursor_ok r \<Longrightarrow> cursor_ok (removeUser uid r)"
  by (simp add: cursor_ok_def removeUser_def)

lemma rooms_ok_on_join: "rooms_ok (rooms s) \<Longrightarrow> rooms_ok (rooms (fst (on_join sid c data s)))"
proof (cases data)
  case None
  assume "rooms_ok (rooms s)"
  then show ?thesis using None by (simp add: on_join_def)
next
  case (Some d)
  assume "rooms_ok (rooms s)"
  then show ?thesis
    using Some rooms_ok_getRoom [of "rooms s" "join_target d"]
    by (simp add: on_join_def Let_def rooms_ok_upd cursor_ok_addUser case_prod_beta)
qed

lemma rooms_ok_on_draw:
  "rooms_ok (rooms s) \<Longrightarrow> rooms_ok (rooms (fst (on_draw sid c payload now s)))"
  using rooms_ok_getRoom [of "rooms s" "currentRoom c"]
    cursor_ok_addOperation [of "fst (getRoom (currentRoom c) (rooms s))"]
  by (simp add: on_draw_def Let_def rooms_ok_upd case_prod_beta split: option.splits)

lemma rooms_ok_on_undo: "rooms_ok (rooms s) \<Longrightarrow> rooms_ok (rooms (fst (on_undo sid c s)))"
  using rooms_ok_getRoom [of "rooms s" "currentRoom c"]
    cursor_ok_undo [of "fst (getRoom (currentRoom c) (rooms s))"]
  by (simp add: on_undo_def Let_def rooms_ok_upd case_prod_beta split: option.splits)

lemma rooms_ok_on_redo: "rooms_ok (rooms s) \<Longrightarrow> rooms_ok (rooms (fst (on_redo sid c s)))"
  using rooms_ok_getRoom [of "rooms s" "currentRoom c"]
    cursor_ok_redo [of "fst (getRoom (currentRoom c) (rooms s))"]
  by (simp add: on_redo_def Let_def rooms_ok_upd case_prod_beta split: option.splits)

lemma rooms_ok_on_clear: "rooms_ok (rooms s) \<Longrightarrow> rooms_ok (rooms (fst (on_clear sid c s)))"
  using rooms_ok_getRoom [of "rooms s" "currentRoom c"]
  by (simp add: on_clear_def Let_def rooms_ok_upd cursor_ok_clear case_prod_beta)

lemma rooms_ok_on_disconnect:
  "rooms_ok (rooms s) \<Longrightarrow> rooms_ok (rooms (fst (on_disconnect sid c s)))"
  using rooms_ok_getRoom [of "rooms s" "currentRoom c"]
  by (simp add: on_disconnect_def Let_def rooms_ok_upd cursor_ok_removeUser
      rooms_ok_delete_if_empty case_prod_beta split: option.splits)

lemma rooms_ok_handle: "rooms_ok (rooms s) \<Longrightarrow> rooms_ok (rooms (fst (handle sid c e s)))"
  by (cases e)
    (simp_all add: rooms_ok_on_join rooms_ok_on_draw rooms_ok_on_undo rooms_ok_on_redo
      rooms_ok_on_clear rooms_ok_on_disconnect on_cursor_def on_ping_def)

lemma rooms_ok_step: "rooms_ok (rooms s) \<Longrightarrow> rooms_ok (rooms (fst (step s e)))"
  by (simp add: step_def rooms_ok_handle on_connection_def split: option.splits)

lemma rooms_ok_run: "rooms_ok (rooms s) \<Longrightarrow> rooms_ok (rooms (run s evs))"
  by (induction evs arbitrary: s) (simp_all add: rooms_ok_step)

lemma rooms_ok_init: "rooms_ok (rooms init_server)"
  by (simp add: rooms_ok_def init_server_def)

lemma bound_in_group_on_join:
  "bound_in_group s \<Longrightarrow> conns s sid = Some c \<Longrightarrow> bound_in_group (fst (on_join sid c data s))"
  unfolding bound_in_group_def
  by (cases data)
    (fastforce simp: on_join_def Let_def socket_join_def socket_leave_def case_prod_beta
      split: if_splits)+

lemma bound_in_group_on_disconnect:
  "bound_in_group s \<Longrightarrow> conns s sid = Some c \<Longrightarrow> bound_in_group (fst (on_disconnect sid c s))"
  unfolding bound_in_group_def
  by (fastforce simp: on_disconnect_def Let_def socket_leave_all_def case_prod_beta
      split: option.splits if_splits)

lemma bound_in_group_handle:
  "bound_in_group s \<Longrightarrow> conns s sid = Some c \<Longrightarrow> bound_in_group (fst (handle sid c e s))"
proof (cases e)
  case (RoomJoin d)
  assume "bound_in_group s" "conns s sid = Some c"
  then show ?thesis using RoomJoin by (simp add: bound_in_group_on_join)
next
  case Disconnect
  assume "bound_in_group s" "conns s sid = Some c"
  then show ?thesis using Disconnect by (simp add: bound_in_group_on_disconnect)
qed (auto simp: bound_in_group_def on_draw_def on_cursor_def on_undo_def on_redo_def
      on_clear_def on_ping_def Let_def split: prod.splits option.splits)

lemma bound_in_group_step: "bound_in_group s \<Longrightarrow> bound_in_group (fst (step s e))"
proof (cases "conns s (fst e)")
  case None
  assume "bound_in_group s"
  then show ?thesis using None
    unfolding bound_in_group_def
    by (fastforce simp: step_def on_connection_def socket_join_def split: if_splits)
next
  case (Some c)
  assume "bound_in_group s"
  then show ?thesis using Some
    by (simp add: step_def bound_in_group_handle)
qed

lemma bound_in_group_run: "bound_in_group s \<Longrightarrow> bound_in_group (run s evs)"
  by (induction evs arbitrary: s) (simp_all add: bound_in_group_step)

lemma bound_in_group_init: "bound_in_group init_server"
  by (simp add: bound_in_group_def init_server_def)

section \<open>Undo and redo broadcasts\<close>

lemma after_draw_eq:
  "after_draw =
     \<lparr>rooms = [''r1'' \<mapsto> room_A],
      users_by_socket = [''s1'' \<mapsto> make_user ''s1'' join_r1],
      conns = [''s1'' \<mapsto> bound_r1],
      groups = socket_join ''s1'' ''r1''
                 (socket_leave ''s1'' ''default'' (socket_join ''s1'' ''s1'' (\<lambda>g. {})))\<rparr>"
  by (simp add: after_draw_def init_server_def step_def on_connection_def on_join_def
      on_draw_def getRoom_def new_Room_def addUser_def addOperation_def slice0_def
      join_target_def join_r1_def op_A_def room_A_def bound_r1_def
      make_user_def or_else_def Let_def)

lemma undo_visible:
  assumes "cursor_ok r" and "currentOperationIndex r > -1"
  shows "undo r = (Some (operations r ! nat (currentOperationIndex r)),
                   r\<lparr>currentOperationIndex := currentOperationIndex r - 1\<rparr>)"
    and "getOperations r =
           getOperations (r\<lparr>currentOperationIndex := currentOperationIndex r - 1\<rparr>) @
           [operations r ! nat (currentOperationIndex r)]"
proof -
  from assms have i: "0 \<le> currentOperationIndex r"
    and n: "nat (currentOperationIndex r) < length (operations r)"
    by (auto simp: cursor_ok_def)
  show "undo r = (Some (operations r ! nat (currentOperationIndex r)),
                   r\<lparr>currentOperationIndex := currentOperationIndex r - 1\<rparr>)"
    using i n by (simp add: undo_def js_index_def)
  have "take (Suc (nat (currentOperationIndex r))) (operations r) =
          take (nat (currentOperationIndex r)) (operations r) @
          [operations r ! nat (currentOperationIndex r)]"
    using n by (rule take_Suc_conv_app_nth)
  moreover have "nat (currentOperationIndex r + 1) = Suc (nat (currentOperationIndex r))"
    using i by simp
  ultimately show "getOperations r =
           getOperations (r\<lparr>currentOperationIndex := currentOperationIndex r - 1\<rparr>) @
           [operations r ! nat (currentOperationIndex r)]"
    using i by (simp add: getOperations_def slice0_take)
qed

lemma redo_pending:
  assumes "cursor_ok r" and "currentOperationIndex r < int (length (operations r)) - 1"
  shows "redo r = (Some (operations r ! nat (currentOperationIndex r + 1)),
                   r\<lparr>currentOperationIndex := currentOperationIndex r + 1\<rparr>)"
    and "getOperations (r\<lparr>currentOperationIndex := currentOperationIndex r + 1\<rparr>) =
           getOperations r @ [operations r ! nat (currentOperationIndex r + 1)]"
proof -
  from assms have i: "0 \<le> currentOperationIndex r + 1"
    and n: "nat (currentOperationIndex r + 1) < length (operations r)"
    by (auto simp: cursor_ok_def)
  show "redo r = (Some (operations r ! nat (currentOperationIndex r + 1)),
                   r\<lparr>currentOperationIndex := currentOperationIndex r + 1\<rparr>)"
    using assms(2) i n by (simp add: redo_def js_index_def)
  have "take (Suc (nat (currentOperationIndex r + 1))) (operations r) =
          take (nat (currentOperationIndex r + 1)) (operations r) @
          [operations r ! nat (currentOperationIndex r + 1)]"
    using n by (rule take_Suc_conv_app_nth)
  moreover have "nat (currentOperationIndex r + 1 + 1) = Suc (nat (currentOperationIndex r + 1))"
    using i by simp
  ultimately show "getOperations (r\<lparr>currentOperationIndex := currentOperationIndex r + 1\<rparr>) =
           getOperations r @ [operations r ! nat (currentOperationIndex r + 1)]"
    using i by (simp add: getOperations_def slice0_take)
qed

lemma step_undo_some:
  assumes "conns s sid = Some c" and "rooms s (currentRoom c) = Some r"
    and "undo r = (Some operation, r')" and "truthy operation"
  shows "step s (sid, OperationUndo) =
           (s\<lparr>rooms := (rooms s)(currentRoom c \<mapsto> r')\<rparr>,
            Inr [(ToRoom (currentRoom c),
                  OperationUndoMsg (id_of operation) (currentOperationIndex r'))])"
  using assms by (simp add: step_live on_undo_def getRoom_present)

lemma step_undo_none:
  assumes "conns s sid = Some c" and "rooms s (currentRoom c) = Some r"
    and "undo r = (None, r)"
  shows "step s (sid, OperationUndo) = (s, Inr [])"
  using assms by (simp add: step_live on_undo_def getRoom_present map_upd_triv)

lemma step_redo_some:
  assumes "conns s sid = Some c" and "rooms s (currentRoom c) = Some r"
    and "redo r = (Some operation, r')" and "truthy operation"
  shows "step s (sid, OperationRedo) =
           (s\<lparr>rooms := (rooms s)(currentRoom c \<mapsto> r')\<rparr>,
            Inr [(ToRoom (currentRoom c),
                  OperationRedoMsg (id_of operation) (currentOperationIndex r'))])"
  using assms by (simp add: step_live on_redo_def getRoom_present)

lemma step_redo_none:
  assumes "conns s sid = Some c" and "rooms s (currentRoom c) = Some r"
    and "redo r = (None, r)"
  shows "step s (sid, OperationRedo) = (s, Inr [])"
  using assms by (simp add: step_live on_redo_def getRoom_present map_upd_triv)

lemma after_zero_eq:
  "after_zero =
     \<lparr>rooms = [''r1'' \<mapsto> room_zero 0],
      users_by_socket = [''s1'' \<mapsto> make_user ''s1'' join_r1],
      conns = [''s1'' \<mapsto> bound_r1],
      groups = socket_join ''s1'' ''r1''
                 (socket_leave ''s1'' ''default'' (socket_join ''s1'' ''s1'' (\<lambda>g. {})))\<rparr>"
  by (simp add: after_zero_def init_server_def step_def on_connection_def on_join_def
      on_draw_def getRoom_def new_Room_def addUser_def addOperation_def slice0_def
      join_target_def join_r1_def room_zero_def bound_r1_def
      make_user_def or_else_def Let_def)

text \<open>
  Claim C4, as stated, fails. Socket \<open>s1\<close> joins \<open>r1\<close> and sends a \<open>draw:event\<close> whose
  payload is the number 0: the log of \<open>r1\<close> holds 0 with the cursor on it. An
  \<open>operation:undo\<close> then moves the cursor to -1 and emits nothing, because the handler
  tests the undone value for truthiness.
\<close>

theorem undo_redo_broadcast_counterexample:
  "conns after_zero ''s1'' = Some bound_r1 \<and>
   rooms after_zero ''r1'' = Some (room_zero 0) \<and>
   operations (room_zero 0) = [JNum 0] \<and>
   currentOperationIndex (room_zero 0) = 0 \<and>
   snd (step after_zero (''s1'', OperationUndo)) = Inr [] \<and>
   rooms (fst (step after_zero (''s1'', OperationUndo))) ''r1'' = Some (room_zero (-1))"
  by (simp add: after_zero_eq step_def on_undo_def getRoom_def undo_def js_index_def
      room_zero_def bound_r1_def Let_def)

text \<open>
  Claim C4, amended. In a state reached by a run, for a connection that joined and
  whose current room \<open>r\<close> is in the registry: the requester is among the recipients of a
  whole-room emit. With the cursor above -1 and a truthy operation at the cursor (every
  object is truthy), \<open>operation:undo\<close> moves the cursor down by one and emits exactly
  one message, to the whole room, carrying the id of the operation at the old cursor
  (the last visible one, which is hidden afterwards) and the new cursor; with the
  cursor at -1 it emits nothing and the state is unchanged. With the cursor below the
  last index and a truthy operation just above the cursor, \<open>operation:redo\<close> moves the
  cursor up by one and emits exactly one message, to the whole room, carrying the id
  of the operation that became visible and the new cursor; with the cursor at the last
  index it emits nothing and the state is unchanged.
\<close>

theorem undo_redo_broadcast:
  assumes reach: "s = run init_server evs"
    and live: "conns s sid = Some c"
    and bound: "currentUser c \<noteq> None"
    and room: "rooms s (currentRoom c) = Some r"
  shows "sid \<in> recipients (groups s) (ToRoom (currentRoom c)) \<and>
         (currentOperationIndex r > -1 \<and>
          truthy (operations r ! nat (currentOperationIndex r)) \<longrightarrow>
            step s (sid, OperationUndo) =
              (s\<lparr>rooms := (rooms s)(currentRoom c \<mapsto>
                    r\<lparr>currentOperationIndex := currentOperationIndex r - 1\<rparr>)\<rparr>,
               Inr [(ToRoom (currentRoom c),
                     OperationUndoMsg (id_of (operations r ! nat (currentOperationIndex r)))
                       (currentOperationIndex r - 1))]) \<and>
            getOperations r =
              getOperations (r\<lparr>currentOperationIndex := currentOperationIndex r - 1\<rparr>) @
              [operations r ! nat (currentOperationIndex r)]) \<and>
         (currentOperationIndex r = -1 \<longrightarrow> step s (sid, OperationUndo) = (s, Inr [])) \<and>
         (currentOperationIndex r < int (length (operations r)) - 1 \<and>
          truthy (operations r ! nat (currentOperationIndex r + 1)) \<longrightarrow>
            step s (sid, OperationRedo) =
              (s\<lparr>rooms := (rooms s)(currentRoom c \<mapsto>
                    r\<lparr>currentOperationIndex := currentOperationIndex r + 1\<rparr>)\<rparr>,
               Inr [(ToRoom (currentRoom c),
                     OperationRedoMsg (id_of (operations r ! nat (currentOperationIndex r + 1)))
                       (currentOperationIndex r + 1))]) \<and>
            getOperations (r\<lparr>currentOperationIndex := currentOperationIndex r + 1\<rparr>) =
              getOperations r @ [operations r ! nat (currentOperationIndex r + 1)]) \<and>
         (currentOperationIndex r = int (length (operations r)) - 1 \<longrightarrow>
            step s (sid, OperationRedo) = (s, Inr []))"
proof -
  have "rooms_ok (rooms s)"
    unfolding reach using rooms_ok_init by (rule rooms_ok_run)
  with room have ok: "cursor_ok r"
    by (simp add: rooms_ok_def)
  have "bound_in_group s"
    unfolding reach using bound_in_group_init by (rule bound_in_group_run)
  with live bound have member: "sid \<in> recipients (groups s) (ToRoom (currentRoom c))"
    by (simp add: bound_in_group_def)
  have undo_some: "step s (sid, OperationUndo) =
              (s\<lparr>rooms := (rooms s)(currentRoom c \<mapsto>
                    r\<lparr>currentOperationIndex := currentOperationIndex r - 1\<rparr>)\<rparr>,
               Inr [(ToRoom (currentRoom c),
                     OperationUndoMsg (id_of (operations r ! nat (currentOperationIndex r)))
                       (currentOperationIndex r - 1))])"
    if "currentOperationIndex r > -1" "truthy (operations r ! nat (currentOperationIndex r))"
    using step_undo_some [OF live room undo_visible(1) [OF ok that(1)] that(2)] by simp
  have undo_none: "step s (sid, OperationUndo) = (s, Inr [])" if "currentOperationIndex r = -1"
    using live room by (rule step_undo_none) (simp add: undo_def that)
  have redo_some: "step s (sid, OperationRedo) =
              (s\<lparr>rooms := (rooms s)(currentRoom c \<mapsto>
                    r\<lparr>currentOperationIndex := currentOperationIndex r + 1\<rparr>)\<rparr>,
               Inr [(ToRoom (currentRoom c),
                     OperationRedoMsg (id_of (operations r ! nat (currentOperationIndex r + 1)))
                       (currentOperationIndex r + 1))])"
    if "currentOperationIndex r < int (length (operations r)) - 1"
      "truthy (operations r ! nat (currentOperationIndex r + 1))"
    using step_redo_some [OF live room redo_pending(1) [OF ok that(1)] that(2)] by simp
  have redo_none: "step s (sid, OperationRedo) = (s, Inr [])"
    if "currentOperationIndex r = int (length (operations r)) - 1"
    using live room by (rule step_redo_none) (simp add: redo_def that)
  show ?thesis
    using member undo_some undo_none redo_some redo_none
      undo_visible(2) [OF ok] redo_pending(2) [OF ok]
    by blast
qed

theorem undo_redo_broadcast_witness:
  "after_draw = run init_server
       [(''s1'', Connect), (''s1'', RoomJoin (Some join_r1)), (''s1'', DrawEvent (Some op_A) 5)] \<and>
   conns after_draw ''s1'' = Some bound_r1 \<and>
   currentUser bound_r1 \<noteq> None \<and>
   rooms after_draw (currentRoom bound_r1) = Some room_A \<and>
   currentOperationIndex room_A > -1 \<and>
   truthy (operations room_A ! nat (currentOperationIndex room_A)) \<and>
   currentOperationIndex room_A = int (length (operations room_A)) - 1 \<and>
   after_undo = run init_server
       [(''s1'', Connect), (''s1'', RoomJoin (Some join_r1)), (''s1'', DrawEvent (Some op_A) 5),
        (''s1'', OperationUndo)] \<and>
   conns after_undo ''s1'' = Some bound_r1 \<and>
   rooms after_undo (currentRoom bound_r1) = Some (room_A\<lparr>currentOperationIndex := -1\<rparr>) \<and>
   ''s1'' \<in> recipients (groups after_draw) (ToRoom ''r1'') \<and>
   snd (step after_draw (''s1'', OperationUndo)) =
     Inr [(ToRoom ''r1'', OperationUndoMsg (Some ''a'') (-1))] \<and>
   step after_draw (''s1'', OperationRedo) = (after_draw, Inr []) \<and>
   step after_undo (''s1'', OperationUndo) = (after_undo, Inr []) \<and>
   snd (step after_undo (''s1'', OperationRedo)) =
     Inr [(ToRoom ''r1'', OperationRedoMsg (Some ''a'') 0)]"
proof -
  have h1: "conns after_draw ''s1'' = Some bound_r1"
    by (simp add: after_draw_eq)
  have h2: "currentUser bound_r1 \<noteq> None"
    by (simp add: bound_r1_def)
  have h3: "rooms after_draw (currentRoom bound_r1) = Some room_A"
    by (simp add: after_draw_eq bound_r1_def)
  have i: "currentOperationIndex room_A = 0" "operations room_A = [op_A]"
    "currentRoom bound_r1 = ''r1''" "id_of op_A = Some ''a''" "truthy op_A"
    by (simp_all add: room_A_def bound_r1_def op_A_def)
  have u: "after_undo = fst (step after_draw (''s1'', OperationUndo))"
    by (simp add: after_undo_def after_draw_def)
  from undo_redo_broadcast [OF after_draw_def h1 h2 h3]
  have d: "''s1'' \<in> recipients (groups after_draw) (ToRoom ''r1'')"
    "step after_draw (''s1'', OperationUndo) =
       (after_draw\<lparr>rooms := (rooms after_draw)(''r1'' \<mapsto> room_A\<lparr>currentOperationIndex := -1\<rparr>)\<rparr>,
        Inr [(ToRoom ''r1'', OperationUndoMsg (Some ''a'') (-1))])"
    "step after_draw (''s1'', OperationRedo) = (after_draw, Inr [])"
    by (simp_all add: i)
  have g1: "conns after_undo ''s1'' = Some bound_r1"
    by (simp add: u d(2) h1)
  have g3: "rooms after_undo (currentRoom bound_r1) = Some (room_A\<lparr>currentOperationIndex := -1\<rparr>)"
    by (simp add: u d(2) i)
  from undo_redo_broadcast [OF after_undo_def g1 h2 g3]
  have e: "step after_undo (''s1'', OperationUndo) = (after_undo, Inr [])"
    "snd (step after_undo (''s1'', OperationRedo)) =
       Inr [(ToRoom ''r1'', OperationRedoMsg (Some ''a'') 0)]"
    by (simp_all add: i)
  have t: "currentOperationIndex room_A > -1"
    "truthy (operations room_A ! nat (currentOperationIndex room_A))"
    "currentOperationIndex room_A = int (length (operations room_A)) - 1"
    by (simp_all add: i)
  from after_draw_def after_undo_def h1 h2 h3 t g1 g3 d(1) d(3) e
  have rest: "after_draw = run init_server
       [(''s1'', Connect), (''s1'', RoomJoin (Some join_r1)), (''s1'', DrawEvent (Some op_A) 5)]"
    "after_undo = run init_server
       [(''s1'', Connect), (''s1'', RoomJoin (Some join_r1)), (''s1'', DrawEvent (Some op_A) 5),
        (''s1'', OperationUndo)]"
    by simp_all
  have out: "snd (step after_draw (''s1'', OperationUndo)) =
     Inr [(ToRoom ''r1'', OperationUndoMsg (Some ''a'') (-1))]"
    by (simp add: d(2))
  from rest h1 h2 h3 t g1 g3 d(1) out d(3) e show ?thesis
    by (intro conjI)
qed

section \<open>Room lifecycle\<close>

lemma getRoom_other: "k \<noteq> rid \<Longrightarrow> snd (getRoom k rs) rid = rs rid"
  by (simp add: getRoom_def split: option.splits)

lemma delete_if_empty_other: "k \<noteq> rid \<Longrightarrow> delete_if_empty k rs rid = rs rid"
  by (simp add: delete_if_empty_def split: option.splits)

lemma no_ref_on_join:
  "no_ref rid s \<Longrightarrow> \<not> joins_room rid (sid, RoomJoin data) \<Longrightarrow>
   no_ref rid (fst (on_join sid c data s))"
  by (cases data)
    (simp_all add: no_ref_def on_join_def Let_def case_prod_beta getRoom_other)

lemma no_ref_on_draw:
  "no_ref rid s \<Longrightarrow> currentRoom c \<noteq> rid \<Longrightarrow> no_ref rid (fst (on_draw sid c payload now s))"
  by (simp add: no_ref_def on_draw_def Let_def case_prod_beta getRoom_other
      split: option.splits)

lemma no_ref_on_undo:
  "no_ref rid s \<Longrightarrow> currentRoom c \<noteq> rid \<Longrightarrow> no_ref rid (fst (on_undo sid c s))"
  by (simp add: no_ref_def on_undo_def Let_def case_prod_beta getRoom_other split: option.splits)

lemma no_ref_on_redo:
  "no_ref rid s \<Longrightarrow> currentRoom c \<noteq> rid \<Longrightarrow> no_ref rid (fst (on_redo sid c s))"
  by (simp add: no_ref_def on_redo_def Let_def case_prod_beta getRoom_other split: option.splits)

lemma no_ref_on_clear:
  "no_ref rid s \<Longrightarrow> currentRoom c \<noteq> rid \<Longrightarrow> no_ref rid (fst (on_clear sid c s))"
  by (simp add: no_ref_def on_clear_def Let_def case_prod_beta getRoom_other)

lemma no_ref_on_disconnect:
  "no_ref rid s \<Longrightarrow> currentRoom c \<noteq> rid \<Longrightarrow> no_ref rid (fst (on_disconnect sid c s))"
  by (simp add: no_ref_def on_disconnect_def Let_def case_prod_beta getRoom_other
      delete_if_empty_other split: option.splits)

lemma no_ref_handle:
  assumes "no_ref rid s" and "currentRoom c \<noteq> rid" and "\<not> joins_room rid (sid, e)"
  shows "no_ref rid (fst (handle sid c e s))"
  using assms
  by (cases e)
    (simp_all add: no_ref_on_join no_ref_on_draw no_ref_on_undo no_ref_on_redo
      no_ref_on_clear no_ref_on_disconnect on_cursor_def on_ping_def)

lemma no_ref_step:
  assumes "rid \<noteq> ''default''" and "\<not> joins_room rid e" and "no_ref rid s"
  shows "no_ref rid (fst (step s e))"
proof (cases "conns s (fst e)")
  case None
  with assms show ?thesis
    by (auto simp: step_def no_ref_def on_connection_def)
next
  case (Some c)
  with assms(3) have "currentRoom c \<noteq> rid"
    by (simp add: no_ref_def)
  with assms(2,3) have "no_ref rid (fst (handle (fst e) c (snd e) s))"
    by (intro no_ref_handle) simp_all
  with Some show ?thesis
    by (simp add: step_def)
qed

lemma no_ref_run:
  "rid \<noteq> ''default'' \<Longrightarrow> \<forall>e \<in> set evs. \<not> joins_room rid e \<Longrightarrow> no_ref rid s \<Longrightarrow>
   no_ref rid (run s evs)"
  by (induction evs arbitrary: s) (simp_all add: no_ref_step)

lemma no_ref_init: "no_ref rid init_server"
  by (simp add: no_ref_def init_server_def)

lemma rooms_after_disconnect:
  "conns s sid = Some c \<Longrightarrow>
   (case rooms (fst (step s (sid, Disconnect))) (currentRoom c) of
      None \<Rightarrow> True | Some r \<Rightarrow> users r \<noteq> [])"
  by (simp add: step_live on_disconnect_def delete_if_empty_def Let_def case_prod_beta
      split: option.splits)

lemma rooms_after_last_disconnect:
  assumes "conns s sid = Some c" and "currentUser c = Some cu"
    and "rooms s (currentRoom c) = Some r" and "map_delete (u_id cu) (users r) = []"
  shows "rooms (fst (step s (sid, Disconnect))) (currentRoom c) = None"
  using assms
  by (simp add: step_live on_disconnect_def delete_if_empty_def Let_def getRoom_present
      removeUser_def)

lemma rooms_after_other_disconnect:
  assumes "conns s sid = Some c" and "currentUser c = Some cu"
    and "rooms s (currentRoom c) = Some r" and "map_delete (u_id cu) (users r) \<noteq> []"
  shows "rooms (fst (step s (sid, Disconnect))) (currentRoom c) = Some (removeUser (u_id cu) r)"
  using assms
  by (simp add: step_live on_disconnect_def delete_if_empty_def Let_def getRoom_present
      removeUser_def)

lemma rooms_after_unjoined_disconnect:
  assumes "conns s sid = Some c" and "currentUser c = None"
    and "rooms s (currentRoom c) = Some r"
  shows "rooms (fst (step s (sid, Disconnect))) (currentRoom c) =
           (if users r = [] then None else Some r)"
  using assms
  by (simp add: step_live on_disconnect_def delete_if_empty_def)

lemma join_absent_room:
  assumes "conns s sid = Some c" and "rooms s (join_target d) = None"
  shows "rooms (fst (step s (sid, RoomJoin (Some d)))) (join_target d) =
           Some \<lparr>roomId = join_target d, operations = [],
                 users = [(u_id (make_user sid d), make_user sid d)],
                 currentOperationIndex = -1\<rparr>"
    and "hd (emits_of (snd (step s (sid, RoomJoin (Some d))))) =
           (ToSocket sid, RoomState [] [make_user sid d])"
  using assms
  by (simp_all add: step_live on_join_def Let_def getRoom_absent new_Room_def addUser_def
      getOperations_def getUsers_def slice0_def emits_of_def)

lemma default_on_demand:
  assumes fresh: "conns s sid = Some \<lparr>currentRoom = ''default'', currentUser = None\<rparr>"
    and absent: "rooms s ''default'' = None"
  shows "rooms (fst (step s (sid, DrawEvent (Some operation) now))) ''default'' =
           Some \<lparr>roomId = ''default'',
                 operations = [if timestamp_missing operation
                               then set_timestamp operation now else operation],
                 users = [], currentOperationIndex = 0\<rparr>"
    and "rooms (fst (step s (sid, OperationUndo))) ''default'' =
           Some \<lparr>roomId = ''default'', operations = [], users = [], currentOperationIndex = -1\<rparr>"
    and "rooms (fst (step s (sid, OperationRedo))) ''default'' =
           Some \<lparr>roomId = ''default'', operations = [], users = [], currentOperationIndex = -1\<rparr>"
    and "rooms (fst (step s (sid, CanvasClear))) ''default'' =
           Some \<lparr>roomId = ''default'', operations = [], users = [], currentOperationIndex = -1\<rparr>"
proof -
  show "rooms (fst (step s (sid, DrawEvent (Some operation) now))) ''default'' =
           Some \<lparr>roomId = ''default'',
                 operations = [if timestamp_missing operation
                               then set_timestamp operation now else operation],
                 users = [], currentOperationIndex = 0\<rparr>"
    using rooms_after_draw [OF fresh, of operation now]
    by (simp add: getRoom_absent absent addOperation_new_Room)
  show "rooms (fst (step s (sid, OperationUndo))) ''default'' =
           Some \<lparr>roomId = ''default'', operations = [], users = [], currentOperationIndex = -1\<rparr>"
    using rooms_after_undo [OF fresh]
    by (simp add: getRoom_absent absent undo_new_Room) (simp add: new_Room_def)
  show "rooms (fst (step s (sid, OperationRedo))) ''default'' =
           Some \<lparr>roomId = ''default'', operations = [], users = [], currentOperationIndex = -1\<rparr>"
    using rooms_after_redo [OF fresh]
    by (simp add: getRoom_absent absent redo_new_Room) (simp add: new_Room_def)
  show "rooms (fst (step s (sid, CanvasClear))) ''default'' =
           Some \<lparr>roomId = ''default'', operations = [], users = [], currentOperationIndex = -1\<rparr>"
    using rooms_after_clear [OF fresh]
    by (simp add: getRoom_absent absent clear_new_Room) (simp add: new_Room_def)
qed

lemma after_two_facts:
  "conns after_two ''s1'' = Some bound_r1"
  "rooms after_two ''r1'' = Some room_two"
  by (simp_all add: after_two_def init_server_def step_def on_connection_def on_join_def
      on_draw_def getRoom_def new_Room_def addUser_def addOperation_def slice0_def
      join_target_def join_r1_def join_AB_def op_A_def room_two_def bound_r1_def
      make_user_def or_else_def Let_def)

text \<open>
  Claim C3, as stated, fails. Socket \<open>s1\<close> connects and sends a \<open>draw:event\<close> without
  ever joining: neither event is a join of \<open>default\<close>, and the registry holds the room
  \<open>default\<close>, with the operation in its log and no member.
\<close>

theorem room_lifecycle_counterexample:
  "\<not> joins_room ''default'' (''s1'', Connect) \<and>
   \<not> joins_room ''default'' (''s1'', DrawEvent (Some op_A) 5) \<and>
   rooms (run init_server [(''s1'', Connect), (''s1'', DrawEvent (Some op_A) 5)]) ''default'' =
     Some \<lparr>roomId = ''default'', operations = [op_A], users = [], currentOperationIndex = 0\<rparr>"
  by (simp add: init_server_def step_def on_connection_def on_draw_def getRoom_def
      new_Room_def addOperation_def slice0_def op_A_def Let_def)

text \<open>
  Claim C3, amended. The registry starts empty. A room other than \<open>default\<close> is not in
  the registry after any run without a \<open>room:join\<close> that targets it. The room \<open>default\<close>
  is also created on demand, with an empty membership, by a \<open>draw:event\<close>,
  \<open>operation:undo\<close>, \<open>operation:redo\<close> or \<open>canvas:clear\<close> of a connection that never
  joined. For a live connection: after its \<open>room:join\<close> the target room is in the
  registry with the participant as a member. After its \<open>disconnect\<close> its current room
  is either not in the registry or has a member left: when the departing participant
  was the only entry of the membership map the room is not in the registry; when
  other entries remain the room stays, with the same log and without the departing
  participant; and the disconnect of a connection that never joined removes its
  current room when that room has no member and leaves it as it is otherwise. A
  \<open>room:join\<close> to a room that is not in the registry creates a new room with an empty
  log, and the \<open>room:state\<close> it sends has no operations.
\<close>

theorem room_lifecycle:
  "rooms init_server rid = None \<and>
   (rid \<noteq> ''default'' \<and> (\<forall>e \<in> set evs. \<not> joins_room rid e) \<longrightarrow>
      rooms (run init_server evs) rid = None) \<and>
   (conns s sid = Some \<lparr>currentRoom = ''default'', currentUser = None\<rparr> \<and>
    rooms s ''default'' = None \<longrightarrow>
      rooms (fst (step s (sid, DrawEvent (Some operation) now))) ''default'' =
        Some \<lparr>roomId = ''default'',
              operations = [if timestamp_missing operation
                            then set_timestamp operation now else operation],
              users = [], currentOperationIndex = 0\<rparr> \<and>
      rooms (fst (step s (sid, OperationUndo))) ''default'' =
        Some \<lparr>roomId = ''default'', operations = [], users = [], currentOperationIndex = -1\<rparr> \<and>
      rooms (fst (step s (sid, OperationRedo))) ''default'' =
        Some \<lparr>roomId = ''default'', operations = [], users = [], currentOperationIndex = -1\<rparr> \<and>
      rooms (fst (step s (sid, CanvasClear))) ''default'' =
        Some \<lparr>roomId = ''default'', operations = [], users = [], currentOperationIndex = -1\<rparr>) \<and>
   (conns s sid = Some c \<longrightarrow>
      (\<exists>r. rooms (fst (step s (sid, RoomJoin (Some d)))) (join_target d) = Some r \<and>
           (u_id (make_user sid d), make_user sid d) \<in> set (users r)) \<and>
      (case rooms (fst (step s (sid, Disconnect))) (currentRoom c) of
         None \<Rightarrow> True | Some r \<Rightarrow> users r \<noteq> []) \<and>
      (currentUser c = Some cu \<and> rooms s (currentRoom c) = Some r \<and>
       map_delete (u_id cu) (users r) = [] \<longrightarrow>
         rooms (fst (step s (sid, Disconnect))) (currentRoom c) = None) \<and>
      (currentUser c = Some cu \<and> rooms s (currentRoom c) = Some r \<and>
       map_delete (u_id cu) (users r) \<noteq> [] \<longrightarrow>
         rooms (fst (step s (sid, Disconnect))) (currentRoom c) =
           Some (r\<lparr>users := map_delete (u_id cu) (users r)\<rparr>)) \<and>
      (currentUser c = None \<and> rooms s (currentRoom c) = Some r \<longrightarrow>
         rooms (fst (step s (sid, Disconnect))) (currentRoom c) =
           (if users r = [] then None else Some r)) \<and>
      (rooms s (join_target d) = None \<longrightarrow>
         rooms (fst (step s (sid, RoomJoin (Some d)))) (join_target d) =
           Some \<lparr>roomId = join_target d, operations = [],
                 users = [(u_id (make_user sid d), make_user sid d)],
                 currentOperationIndex = -1\<rparr> \<and>
         hd (emits_of (snd (step s (sid, RoomJoin (Some d))))) =
           (ToSocket sid, RoomState [] [make_user sid d])))"
proof (intro conjI impI)
  show "rooms init_server rid = None"
    by (simp add: init_server_def)
next
  assume "rid \<noteq> ''default'' \<and> (\<forall>e \<in> set evs. \<not> joins_room rid e)"
  then have "no_ref rid (run init_server evs)"
    using no_ref_init by (intro no_ref_run) simp_all
  then show "rooms (run init_server evs) rid = None"
    by (simp add: no_ref_def)
next
  assume a: "conns s sid = Some \<lparr>currentRoom = ''default'', currentUser = None\<rparr> \<and>
    rooms s ''default'' = None"
  then have fresh: "conns s sid = Some \<lparr>currentRoom = ''default'', currentUser = None\<rparr>"
    and absent: "rooms s ''default'' = None"
    by simp_all
  show "rooms (fst (step s (sid, DrawEvent (Some operation) now))) ''default'' =
        Some \<lparr>roomId = ''default'',
              operations = [if timestamp_missing operation
                            then set_timestamp operation now else operation],
              users = [], currentOperationIndex = 0\<rparr>"
    using fresh absent by (rule default_on_demand(1))
  show "rooms (fst (step s (sid, OperationUndo))) ''default'' =
        Some \<lparr>roomId = ''default'', operations = [], users = [], currentOperationIndex = -1\<rparr>"
    using fresh absent by (rule default_on_demand(2))
  show "rooms (fst (step s (sid, OperationRedo))) ''default'' =
        Some \<lparr>roomId = ''default'', operations = [], users = [], currentOperationIndex = -1\<rparr>"
    using fresh absent by (rule default_on_demand(3))
  show "rooms (fst (step s (sid, CanvasClear))) ''default'' =
        Some \<lparr>roomId = ''default'', operations = [], users = [], currentOperationIndex = -1\<rparr>"
    using fresh absent by (rule default_on_demand(4))
next
  assume live: "conns s sid = Some c"
  show "\<exists>r. rooms (fst (step s (sid, RoomJoin (Some d)))) (join_target d) = Some r \<and>
           (u_id (make_user sid d), make_user sid d) \<in> set (users r)"
    by (simp add: rooms_after_join [OF live] addUser_def map_set_mem)
  show "case rooms (fst (step s (sid, Disconnect))) (currentRoom c) of
         None \<Rightarrow> True | Some r \<Rightarrow> users r \<noteq> []"
    using live by (rule rooms_after_disconnect)
  {
    assume last: "currentUser c = Some cu \<and> rooms s (currentRoom c) = Some r \<and>
       map_delete (u_id cu) (users r) = []"
    show "rooms (fst (step s (sid, Disconnect))) (currentRoom c) = None"
      using live last rooms_after_last_disconnect [of s sid c cu r] by blast
  }
  {
    assume other: "currentUser c = Some cu \<and> rooms s (currentRoom c) = Some r \<and>
       map_delete (u_id cu) (users r) \<noteq> []"
    show "rooms (fst (step s (sid, Disconnect))) (currentRoom c) =
           Some (r\<lparr>users := map_delete (u_id cu) (users r)\<rparr>)"
      using live other rooms_after_other_disconnect [of s sid c cu r]
      by (simp add: removeUser_def)
  }
  {
    assume unjoined: "currentUser c = None \<and> rooms s (currentRoom c) = Some r"
    show "rooms (fst (step s (sid, Disconnect))) (currentRoom c) =
           (if users r = [] then None else Some r)"
      using live unjoined rooms_after_unjoined_disconnect [of s sid c r] by blast
  }
  {
    assume absent: "rooms s (join_target d) = None"
    show "rooms (fst (step s (sid, RoomJoin (Some d)))) (join_target d) =
           Some \<lparr>roomId = join_target d, operations = [],
                 users = [(u_id (make_user sid d), make_user sid d)],
                 currentOperationIndex = -1\<rparr>"
      using live absent by (rule join_absent_room(1))
    show "hd (emits_of (snd (step s (sid, RoomJoin (Some d))))) =
            (ToSocket sid, RoomState [] [make_user sid d])"
      using live absent by (rule join_absent_room(2))
  }
qed

theorem room_lifecycle_witness:
  "''r2'' \<noteq> ''default'' \<and>
   \<not> joins_room ''r2'' (''s1'', Connect) \<and>
   \<not> joins_room ''r2'' (''s1'', RoomJoin (Some join_r1)) \<and>
   \<not> joins_room ''r2'' (''s1'', DrawEvent (Some op_A) 5) \<and>
   conns after_connect ''s1'' = Some \<lparr>currentRoom = ''default'', currentUser = None\<rparr> \<and>
   rooms after_connect ''default'' = None \<and>
   conns after_draw ''s1'' = Some bound_r1 \<and>
   currentUser bound_r1 = Some (make_user ''s1'' join_r1) \<and>
   rooms after_draw (currentRoom bound_r1) = Some room_A \<and>
   map_delete (u_id (make_user ''s1'' join_r1)) (users room_A) = [] \<and>
   rooms after_draw (join_target join_r2) = None \<and>
   conns after_two ''s1'' = Some bound_r1 \<and>
   rooms after_two (currentRoom bound_r1) = Some room_two \<and>
   map_delete (u_id (make_user ''s1'' join_r1)) (users room_two) \<noteq> [] \<and>
   conns after_unjoined ''s1'' = Some fresh_conn \<and>
   currentUser fresh_conn = None \<and>
   rooms after_unjoined (currentRoom fresh_conn) = Some (room_default 1) \<and>
   rooms after_draw ''r2'' = None \<and>
   rooms (fst (step after_connect (''s1'', DrawEvent (Some op_A) 5))) ''default'' =
     Some \<lparr>roomId = ''default'', operations = [op_A], users = [], currentOperationIndex = 0\<rparr> \<and>
   rooms (fst (step after_connect (''s1'', OperationUndo))) ''default'' =
     Some \<lparr>roomId = ''default'', operations = [], users = [], currentOperationIndex = -1\<rparr> \<and>
   rooms (fst (step after_draw (''s1'', Disconnect))) ''r1'' = None \<and>
   rooms (fst (step after_two (''s1'', Disconnect))) ''r1'' =
     Some \<lparr>roomId = ''r1'', operations = [op_A], users = [(''u2'', make_user ''s2'' join_AB)],
           currentOperationIndex = 0\<rparr> \<and>
   rooms (fst (step after_unjoined (''s1'', Disconnect))) ''default'' = None \<and>
   hd (emits_of (snd (step after_draw (''s1'', RoomJoin (Some join_r2))))) =
     (ToSocket ''s1'', RoomState [] [make_user ''s1'' join_r2])"
proof -
  have h0: "''r2'' \<noteq> ''default''"
    by simp
  have n: "\<not> joins_room ''r2'' (''s1'', Connect)"
    "\<not> joins_room ''r2'' (''s1'', RoomJoin (Some join_r1))"
    "\<not> joins_room ''r2'' (''s1'', DrawEvent (Some op_A) 5)"
    by (simp_all add: join_target_def join_r1_def)
  then have h1: "\<forall>e \<in> set [(''s1'', Connect), (''s1'', RoomJoin (Some join_r1)),
                           (''s1'', DrawEvent (Some op_A) 5)]. \<not> joins_room ''r2'' e"
    by simp
  have f1: "conns after_connect ''s1'' = Some \<lparr>currentRoom = ''default'', currentUser = None\<rparr>"
    by (simp add: after_connect_eq fresh_conn_def)
  have f2: "rooms after_connect ''default'' = None"
    by (simp add: after_connect_eq)
  have h2: "conns after_draw ''s1'' = Some bound_r1"
    by (simp add: after_draw_eq)
  have h3: "currentUser bound_r1 = Some (make_user ''s1'' join_r1)"
    by (simp add: bound_r1_def)
  have h4: "rooms after_draw (currentRoom bound_r1) = Some room_A"
    by (simp add: after_draw_eq bound_r1_def)
  have h5: "map_delete (u_id (make_user ''s1'' join_r1)) (users room_A) = []"
    by (simp add: room_A_def make_user_def or_else_def join_r1_def)
  have h6: "rooms after_draw (join_target join_r2) = None"
    by (simp add: after_draw_eq join_target_def join_r2_def)
  have t: "join_target join_r2 = ''r2''" "currentRoom bound_r1 = ''r1''"
    "currentRoom fresh_conn = ''default''"
    by (simp_all add: join_target_def join_r2_def bound_r1_def fresh_conn_def)
  have w1: "conns after_two ''s1'' = Some bound_r1"
    by (rule after_two_facts(1))
  have w2: "rooms after_two (currentRoom bound_r1) = Some room_two"
    by (simp add: t after_two_facts(2))
  have w3: "map_delete (u_id (make_user ''s1'' join_r1)) (users room_two) =
              [(''u2'', make_user ''s2'' join_AB)]"
    by (simp add: room_two_def make_user_def or_else_def join_r1_def)
  then have w4: "map_delete (u_id (make_user ''s1'' join_r1)) (users room_two) \<noteq> []"
    by simp
  have u1: "conns after_unjoined ''s1'' = Some fresh_conn"
    by (simp add: after_unjoined_eq)
  have u2: "currentUser fresh_conn = None"
    by (simp add: fresh_conn_def)
  have u3: "rooms after_unjoined (currentRoom fresh_conn) = Some (room_default 1)"
    by (simp add: after_unjoined_eq fresh_conn_def)
  have m: "\<not> timestamp_missing op_A"
    by (simp add: op_A_def)
  from room_lifecycle [of "''r2''"
      "[(''s1'', Connect), (''s1'', RoomJoin (Some join_r1)), (''s1'', DrawEvent (Some op_A) 5)]"
      after_connect "''s1''" op_A 5 fresh_conn join_r2 "make_user ''s1'' join_r1" room_A]
    h0 h1 f1 f2 m
  have a: "rooms after_draw ''r2'' = None"
    "rooms (fst (step after_connect (''s1'', DrawEvent (Some op_A) 5))) ''default'' =
       Some \<lparr>roomId = ''default'', operations = [op_A], users = [], currentOperationIndex = 0\<rparr>"
    "rooms (fst (step after_connect (''s1'', OperationUndo))) ''default'' =
       Some \<lparr>roomId = ''default'', operations = [], users = [], currentOperationIndex = -1\<rparr>"
    by (simp_all add: after_draw_def)
  from room_lifecycle [of "''r2''" "[]" after_draw "''s1''" op_A 5 bound_r1 join_r2
      "make_user ''s1'' join_r1" room_A] h2 h3 h4 h5 h6
  have b: "rooms (fst (step after_draw (''s1'', Disconnect))) ''r1'' = None"
    "hd (emits_of (snd (step after_draw (''s1'', RoomJoin (Some join_r2))))) =
       (ToSocket ''s1'', RoomState [] [make_user ''s1'' join_r2])"
    by (simp_all add: t)
  from room_lifecycle [of "''r2''" "[]" after_two "''s1''" op_A 5 bound_r1 join_r2
      "make_user ''s1'' join_r1" room_two] w1 h3 w2 w4
  have c: "rooms (fst (step after_two (''s1'', Disconnect))) ''r1'' =
     Some \<lparr>roomId = ''r1'', operations = [op_A], users = [(''u2'', make_user ''s2'' join_AB)],
           currentOperationIndex = 0\<rparr>"
    by (simp add: t w3) (simp add: room_two_def)
  from room_lifecycle [of "''r2''" "[]" after_unjoined "''s1''" op_A 5 fresh_conn join_r2
      "make_user ''s1'' join_r1" "room_default 1"] u1 u2 u3
  have d: "rooms (fst (step after_unjoined (''s1'', Disconnect))) ''default'' = None"
    by (simp add: t room_default_def)
  from h0 n f1 f2 h2 h3 h4 h5 h6 w1 w2 w4 u1 u2 u3 a b c d show ?thesis
    by (intro conjI)
qed

end
